theory Spec2Isabelle
  imports Complex_Main "HOL-Library.Log_Nat"
begin

section \<open>Python floats\<close>

text \<open>
  Both scripts hold their data as decimal literals (\<^verbatim>\<open>265.49\<close>, \<^verbatim>\<open>0.35\<close>, ...).
  Python reads such a literal as the binary64 number nearest to it (ties to the even
  significand), and numpy's float64 arithmetic rounds every result the same way. A float is
  modelled by the rational it denotes. All numbers of the two scripts lie far inside the
  normal range; infinities and NaN do not occur and are not modelled.
\<close>

type_synonym float64 = rat

definition round_half_even :: "rat \<Rightarrow> int" where
  "round_half_even q =
     (let f = \<lfloor>q\<rfloor>; r = q - of_int f
      in if r < 1 / 2 then f
         else if 1 / 2 < r then f + 1
         else if even f then f else f + 1)"

text \<open>
  \<open>ilog2 q\<close> is \<open>\<lfloor>log\<^sub>2 q\<rfloor>\<close> for a positive rational \<open>q\<close>, read off the bit length of
  \<open>\<lfloor>q\<rfloor>\<close> when \<open>q \<ge> 1\<close> and of \<open>\<lceil>1 / q\<rceil> - 1\<close> otherwise.
\<close>

definition ilog2 :: "rat \<Rightarrow> int" where
  "ilog2 q = (if 1 \<le> q then bitlen \<lfloor>q\<rfloor> - 1 else - bitlen (\<lceil>1 / q\<rceil> - 1))"

text \<open>
  Rounding to binary64: a significand of 53 bits, the unit in the last place never below
  \<open>2\<^sup>-\<^sup>1\<^sup>0\<^sup>7\<^sup>4\<close> (the subnormal numbers).
\<close>

definition float_round :: "rat \<Rightarrow> float64" where
  "float_round q =
     (if q = 0 then 0
      else let e = max (ilog2 \<bar>q\<bar> - 52) (- 1074);
               m = round_half_even (\<bar>q\<bar> / 2 powi e)
           in sgn q * of_int m * 2 powi e)"

text \<open>The float a decimal literal of the source denotes.\<close>

definition py_float :: "rat \<Rightarrow> float64" where
  "py_float q = float_round q"

definition fadd :: "float64 \<Rightarrow> float64 \<Rightarrow> float64" where
  "fadd a b = float_round (a + b)"

definition fsub :: "float64 \<Rightarrow> float64 \<Rightarrow> float64" where
  "fsub a b = float_round (a - b)"

text \<open>Division is only ever by the literal 2 in the scripts; a zero divisor does not occur.\<close>

definition fdiv :: "float64 \<Rightarrow> float64 \<Rightarrow> float64" where
  "fdiv a b = float_round (a / b)"

text \<open>\<^verbatim>\<open>np.arange(n)\<close>: the integers \<open>0, \<dots>, n - 1\<close>.\<close>

definition arange :: "nat \<Rightarrow> float64 list" where
  "arange n = map of_nat [0..<n]"

subsection \<open>Fixed-point formatting\<close>

text \<open>The decimal digits of a number that is not negative.\<close>

function digits :: "int \<Rightarrow> string" where
  "digits n =
     (if n < 10 then [char_of (48 + n)]
      else digits (n div 10) @ [char_of (48 + n mod 10)])"
  by pat_completeness auto
termination
  by (relation "measure nat") auto

declare digits.simps [simp del]

text \<open>
  \<^verbatim>\<open>f'{v:.pf}'\<close>: the decimal with \<open>p\<close> fractional digits nearest to the exact value of
  the float, ties to even.
\<close>

definition format_f :: "nat \<Rightarrow> float64 \<Rightarrow> string" where
  "format_f p v =
     (let m = round_half_even (\<bar>v\<bar> * 10 ^ p);
          ip = digits (m div 10 ^ p);
          fp = digits (m mod 10 ^ p)
      in (if v < 0 then ''-'' else '''') @ ip @
         (if p = 0 then '''' else ''.'' @ replicate (p - length fp) (CHR ''0'') @ fp))"

section \<open>The plotting library\<close>

text \<open>
  The part of matplotlib's state the scripts act on. A bar is a rectangle standing on the
  axis; \<open>rect_x\<close> is its left edge (\<^verbatim>\<open>get_x()\<close>). Decoration that no property below reads
  (colours, axis titles, chart title, legend, grid, font settings, \<^verbatim>\<open>tight_layout\<close>) is
  left out.
\<close>

datatype py_error = ValueError | OSError

datatype scale = Linear | Logarithmic

record rectangle =
  rect_x :: float64
  rect_width :: float64
  rect_height :: float64

record annotation =
  text_x :: float64
  text_y :: float64
  text_s :: string

record axes =
  containers :: "(string \<times> rectangle list) list"
  texts :: "annotation list"
  xticks :: "float64 list"
  xticklabels :: "string list"
  yscale :: scale

definition new_axes :: axes where
  "new_axes = \<lparr>containers = [], texts = [], xticks = [], xticklabels = [], yscale = Linear\<rparr>"

text \<open>
  \<^verbatim>\<open>Axes.bar\<close> broadcasts the positions against the heights as numpy does: equal lengths
  pair up, a sequence of length one is repeated, anything else raises \<^verbatim>\<open>ValueError\<close>.
\<close>

definition broadcast :: "'a list \<Rightarrow> 'b list \<Rightarrow> py_error + ('a \<times> 'b) list" where
  "broadcast xs hs =
     (if length xs = length hs then Inr (zip xs hs)
      else if length xs = 1 then Inr (map (\<lambda>h. (hd xs, h)) hs)
      else if length hs = 1 then Inr (map (\<lambda>x. (x, hd hs)) xs)
      else Inl ValueError)"

text \<open>
  Before it places the bars, \<^verbatim>\<open>Axes.bar\<close> converts the width against the positions
  (\<^verbatim>\<open>Axes._convert_dx\<close>): it adds the width to the first position and subtracts that
  position again, both in float64, so the width it goes on with can differ from the one
  passed by a rounding step. With no position at all the width stays as it is.
\<close>

definition convert_dx :: "float64 \<Rightarrow> float64 list \<Rightarrow> float64" where
  "convert_dx dx x = (case x of [] \<Rightarrow> dx | x0 # _ \<Rightarrow> fsub (fadd x0 dx) x0)"

text \<open>
  The rectangles of one bar call, with the default \<^verbatim>\<open>align='center'\<close>: positions and
  heights are broadcast, and the bar at position \<open>x\<close> has its left edge at
  \<open>x - width / 2\<close>.
\<close>

definition bar_rects :: "float64 list \<Rightarrow> float64 list \<Rightarrow> float64 \<Rightarrow> py_error + rectangle list" where
  "bar_rects x height width =
     (case broadcast x height of
        Inl e \<Rightarrow> Inl e
      | Inr ps \<Rightarrow>
          Inr (map (\<lambda>(xi, h). \<lparr>rect_x = fsub xi (fdiv width 2), rect_width = width,
                                 rect_height = h\<rparr>) ps))"

text \<open>The new bars join the axes as one container, and the call returns them.\<close>

definition add_bars ::
  "string \<Rightarrow> axes \<Rightarrow> py_error + rectangle list \<Rightarrow> py_error + (rectangle list \<times> axes)" where
  "add_bars l ax r =
     (case r of
        Inl e \<Rightarrow> Inl e
      | Inr bars \<Rightarrow> Inr (bars, ax\<lparr>containers := containers ax @ [(l, bars)]\<rparr>))"

text \<open>\<^verbatim>\<open>ax.bar(x, height, width, label=l)\<close> with numbers as positions.\<close>

definition ax_bar ::
  "float64 list \<Rightarrow> float64 list \<Rightarrow> float64 \<Rightarrow> string \<Rightarrow> axes \<Rightarrow> py_error + (rectangle list \<times> axes)" where
  "ax_bar x height width l ax = add_bars l ax (bar_rects x height (convert_dx width x))"

text \<open>
  A list of strings as positions makes the axis categorical: each distinct string gets the
  next integer, in order of first appearance, and the ticks carry the strings.
\<close>

definition category_units :: "string list \<Rightarrow> string list" where
  "category_units ls = rev (remdups (rev ls))"

definition category_position :: "string list \<Rightarrow> string \<Rightarrow> float64" where
  "category_position us l = of_nat (length (takeWhile (\<lambda>u. u \<noteq> l) us))"

text \<open>
  \<^verbatim>\<open>ax.bar(labels, height)\<close>: categorical positions, the default width 0.8, no legend
  label. A string and a float cannot be added, so the width conversion falls back to the
  width itself.
\<close>

definition ax_bar_cat ::
  "string list \<Rightarrow> float64 list \<Rightarrow> axes \<Rightarrow> py_error + (rectangle list \<times> axes)" where
  "ax_bar_cat ls height ax =
     (let us = category_units ls
      in add_bars ''_nolegend_'' (ax\<lparr>xticks := arange (length us), xticklabels := us\<rparr>)
           (bar_rects (map (category_position us) ls) height (py_float 0.8)))"

definition ax_text :: "float64 \<Rightarrow> float64 \<Rightarrow> string \<Rightarrow> axes \<Rightarrow> axes" where
  "ax_text x y s ax = ax\<lparr>texts := texts ax @ [\<lparr>text_x = x, text_y = y, text_s = s\<rparr>]\<rparr>"

definition set_xticks :: "float64 list \<Rightarrow> axes \<Rightarrow> axes" where
  "set_xticks x ax = ax\<lparr>xticks := x\<rparr>"

text \<open>
  In the scripts the labels passed to \<^verbatim>\<open>set_xticklabels\<close> are the list whose length
  gave the ticks, so the two always agree in number.
\<close>

definition set_xticklabels :: "string list \<Rightarrow> axes \<Rightarrow> axes" where
  "set_xticklabels ls ax = ax\<lparr>xticklabels := ls\<rparr>"

definition set_yscale :: "scale \<Rightarrow> axes \<Rightarrow> axes" where
  "set_yscale sc ax = ax\<lparr>yscale := sc\<rparr>"

subsection \<open>Files, standard output and pyplot's open figures\<close>

record image =
  img_axes :: axes
  img_dpi :: nat
  img_tight :: bool
  img_format :: string

text \<open>
  \<open>figs\<close> are the figures pyplot holds open, the last one being the current figure;
  \<open>stdout\<close> holds the text of each \<^verbatim>\<open>print\<close> call.
\<close>

record world =
  files :: "string \<rightharpoonup> image"
  stdout :: "string list"
  figs :: "axes list"

text \<open>\<^verbatim>\<open>fig, ax = plt.subplots(...)\<close>: a new figure, made current; the handle is its index.\<close>

definition plt_subplots :: "world \<Rightarrow> nat \<times> world" where
  "plt_subplots s = (length (figs s), s\<lparr>figs := figs s @ [new_axes]\<rparr>)"

text \<open>
  The calls a block makes on its axes object, \<open>f\<close>, applied to the object behind handle
  \<open>h\<close>, which is always the handle \<open>plt_subplots\<close> has just returned. When one of the
  calls raises, the exception is returned with the world as it stood before them: what a
  failed call sequence has already drawn is never saved or read again.
\<close>

definition on_axes ::
  "nat \<Rightarrow> (axes \<Rightarrow> py_error + axes) \<Rightarrow> world \<Rightarrow> (py_error \<times> world) + world" where
  "on_axes h f s =
     (case f (figs s ! h) of
        Inl e \<Rightarrow> Inl (e, s)
      | Inr a \<Rightarrow> Inr (s\<lparr>figs := (figs s)[h := a]\<rparr>))"

text \<open>The output format follows the file name's extension, PNG when there is none.\<close>

definition basename :: "string \<Rightarrow> string" where
  "basename p = rev (takeWhile (\<lambda>c. c \<noteq> CHR ''/'') (rev p))"

definition format_of :: "string \<Rightarrow> string" where
  "format_of p =
     (let b = basename p
      in if CHR ''.'' \<in> set b then rev (takeWhile (\<lambda>c. c \<noteq> CHR ''.'') (rev b)) else ''png'')"

text \<open>\<^verbatim>\<open>plt.gcf()\<close> opens a figure when none is open.\<close>

definition plt_gcf :: "world \<Rightarrow> world" where
  "plt_gcf s = (if figs s = [] then s\<lparr>figs := [new_axes]\<rparr> else s)"

text \<open>
  \<^verbatim>\<open>plt.savefig(path, dpi=d, bbox_inches='tight')\<close> writes the current figure. The
  predicate \<open>wr\<close> says for which paths the file can be created; for the others the call
  raises \<^verbatim>\<open>OSError\<close> (Python's \<^verbatim>\<open>IOError\<close>) and no file appears.
\<close>

definition plt_savefig ::
  "(string \<Rightarrow> bool) \<Rightarrow> string \<Rightarrow> nat \<Rightarrow> bool \<Rightarrow> world \<Rightarrow> (py_error \<times> world) + world" where
  "plt_savefig wr path d tight s0 =
     (let s = plt_gcf s0
      in if wr path
         then Inr (s\<lparr>files := (files s)(path \<mapsto>
                 \<lparr>img_axes = last (figs s), img_dpi = d, img_tight = tight,
                  img_format = format_of path\<rparr>)\<rparr>)
         else Inl (OSError, s))"

definition py_print :: "string \<Rightarrow> world \<Rightarrow> world" where
  "py_print m s = s\<lparr>stdout := stdout s @ [m]\<rparr>"

text \<open>\<^verbatim>\<open>plt.close()\<close> closes the current figure.\<close>

definition plt_close :: "world \<Rightarrow> world" where
  "plt_close s = s\<lparr>figs := butlast (figs s)\<rparr>"

text \<open>Sequencing of statements: the first exception ends the run.\<close>

definition and_then ::
  "(py_error \<times> world) + world \<Rightarrow> (world \<Rightarrow> (py_error \<times> world) + world) \<Rightarrow> (py_error \<times> world) + world" where
  "and_then r f = (case r of Inl e \<Rightarrow> Inl e | Inr s \<Rightarrow> f s)"

definition exit_status :: "(py_error \<times> world) + world \<Rightarrow> nat" where
  "exit_status r = (case r of Inl _ \<Rightarrow> 1 | Inr _ \<Rightarrow> 0)"

text \<open>The world a script ends in, whether it ended by an exception or not.\<close>

definition final_world :: "(py_error \<times> world) + world \<Rightarrow> world" where
  "final_world r = (case r of Inl (_, s) \<Rightarrow> s | Inr s \<Rightarrow> s)"

text \<open>A process starts with nothing printed and no figure open.\<close>

definition start :: "(string \<rightharpoonup> image) \<Rightarrow> world" where
  "start fs = \<lparr>files = fs, stdout = [], figs = []\<rparr>"

subsection \<open>Text outside ASCII, as UTF-8\<close>

definition check_mark :: string where
  "check_mark = [CHR 0xE2, CHR 0x9C, CHR 0x93]"

definition grafik :: string where
  "grafik = [CHR 0xD0, CHR 0x93, CHR 0xD1, CHR 0x80, CHR 0xD0, CHR 0xB0, CHR 0xD1, CHR 0x84,
             CHR 0xD0, CHR 0xB8, CHR 0xD0, CHR 0xBA]"

definition sokhranen :: string where
  "sokhranen = [CHR 0xD1, CHR 0x81, CHR 0xD0, CHR 0xBE, CHR 0xD1, CHR 0x85, CHR 0xD1, CHR 0x80,
                CHR 0xD0, CHR 0xB0, CHR 0xD0, CHR 0xBD, CHR 0xD0, CHR 0xB5, CHR 0xD0, CHR 0xBD]"

text \<open>The confirmation printed after chart number \<open>n\<close> has been saved.\<close>

definition saved_msg :: "string \<Rightarrow> string \<Rightarrow> string" where
  "saved_msg n path = check_mark @ '' '' @ grafik @ '' '' @ n @ '' '' @ sokhranen @ '': '' @ path"

definition done_msg :: string where
  "done_msg = [CHR 0x0A, CHR 0xD0, CHR 0x92, CHR 0xD1, CHR 0x81, CHR 0xD0, CHR 0xB5] @ '' '' @
     [CHR 0xD0, CHR 0xB3, CHR 0xD1, CHR 0x80, CHR 0xD0, CHR 0xB0, CHR 0xD1, CHR 0x84, CHR 0xD0,
      CHR 0xB8, CHR 0xD0, CHR 0xBA, CHR 0xD0, CHR 0xB8] @ '' '' @
     [CHR 0xD1, CHR 0x83, CHR 0xD1, CHR 0x81, CHR 0xD0, CHR 0xBF, CHR 0xD0, CHR 0xB5, CHR 0xD1,
      CHR 0x88, CHR 0xD0, CHR 0xBD, CHR 0xD0, CHR 0xBE] @ '' '' @
     [CHR 0xD1, CHR 0x81, CHR 0xD0, CHR 0xBE, CHR 0xD0, CHR 0xB7, CHR 0xD0, CHR 0xB4, CHR 0xD0,
      CHR 0xB0, CHR 0xD0, CHR 0xBD, CHR 0xD1, CHR 0x8B] @ ''!''"

definition times_sign :: string where
  "times_sign = [CHR 0xC3, CHR 0x97]"

definition seconds_suffix :: string where
  "seconds_suffix = '' '' @ [CHR 0xD1, CHR 0x81]"

section \<open>The script \<^verbatim>\<open>generate_charts.py\<close>\<close>

definition datasets :: "string list" where
  "datasets = [''trade_data'', ''tweets'']"

definition csv_sizes :: "float64 list" where
  "csv_sizes = [py_float 265.49, py_float 3997.58]"

definition lsm_sizes :: "float64 list" where
  "lsm_sizes = [py_float 792.45, py_float 6257.66]"

definition pg_sizes :: "float64 list" where
  "pg_sizes = [py_float 1146.17, py_float 8987.94]"

definition lsm_read_times :: "float64 list" where
  "lsm_read_times = [py_float 24.72, py_float 110.60]"

definition pg_read_times :: "float64 list" where
  "pg_read_times = [py_float 6.93, py_float 52.58]"

definition lsm_write_times :: "float64 list" where
  "lsm_write_times = [py_float 162.74, py_float 578.21]"

definition pg_write_times :: "float64 list" where
  "pg_write_times = [py_float 294.43, py_float 1521.90]"

text \<open>Where a value label is anchored: \<^verbatim>\<open>bar.get_x() + bar.get_width()/2.\<close>\<close>

definition label_x :: "rectangle \<Rightarrow> float64" where
  "label_x b = fadd (rect_x b) (fdiv (rect_width b) 2)"

text \<open>
  Chart 1, the calls on \<^verbatim>\<open>ax1\<close>: three series side by side, each bar labelled with its
  height to one decimal place.
\<close>

definition sizes_draw ::
  "string list \<Rightarrow> float64 list \<Rightarrow> float64 list \<Rightarrow> float64 list \<Rightarrow> axes \<Rightarrow> py_error + axes" where
  "sizes_draw ds csv lsm pg ax1 =
     (let x = arange (length ds); width = py_float 0.25
      in case ax_bar (map (\<lambda>xi. fsub xi width) x) csv width ''CSV'' ax1 of
           Inl e \<Rightarrow> Inl e
         | Inr (bars1, ax1) \<Rightarrow>
       (case ax_bar x lsm width ''LSM'' ax1 of
           Inl e \<Rightarrow> Inl e
         | Inr (bars2, ax1) \<Rightarrow>
       (case ax_bar (map (\<lambda>xi. fadd xi width) x) pg width ''PostgreSQL'' ax1 of
           Inl e \<Rightarrow> Inl e
         | Inr (bars3, ax1) \<Rightarrow>
           Inr (fold (\<lambda>bar. ax_text (label_x bar) (rect_height bar) (format_f 1 (rect_height bar)))
                  (concat [bars1, bars2, bars3])
                  (set_xticklabels ds (set_xticks x ax1))))))"

definition chart_sizes ::
  "string list \<Rightarrow> float64 list \<Rightarrow> float64 list \<Rightarrow> float64 list \<Rightarrow>
   (string \<Rightarrow> bool) \<Rightarrow> world \<Rightarrow> (py_error \<times> world) + world" where
  "chart_sizes ds csv lsm pg wr s0 =
     (case plt_subplots s0 of (ax1, s) \<Rightarrow>
        and_then (and_then (on_axes ax1 (sizes_draw ds csv lsm pg) s)
          (plt_savefig wr ''docs/images/lab3_sizes.png'' 300 True))
          (\<lambda>s. Inr (plt_close (py_print (saved_msg ''1'' ''docs/images/lab3_sizes.png'') s))))"

text \<open>Chart 2, the calls on \<^verbatim>\<open>ax2\<close>: two series, labels to two decimal places.\<close>

definition read_draw ::
  "string list \<Rightarrow> float64 list \<Rightarrow> float64 list \<Rightarrow> axes \<Rightarrow> py_error + axes" where
  "read_draw ds lsm pg ax2 =
     (let x = arange (length ds); width = py_float 0.35
      in case ax_bar (map (\<lambda>xi. fsub xi (fdiv width 2)) x) lsm width ''LSM'' ax2 of
           Inl e \<Rightarrow> Inl e
         | Inr (bars1, ax2) \<Rightarrow>
       (case ax_bar (map (\<lambda>xi. fadd xi (fdiv width 2)) x) pg width ''PostgreSQL'' ax2 of
           Inl e \<Rightarrow> Inl e
         | Inr (bars2, ax2) \<Rightarrow>
           Inr (fold (\<lambda>bar. ax_text (label_x bar) (rect_height bar) (format_f 2 (rect_height bar)))
                  (concat [bars1, bars2])
                  (set_xticklabels ds (set_xticks x ax2)))))"

definition chart_read ::
  "string list \<Rightarrow> float64 list \<Rightarrow> float64 list \<Rightarrow>
   (string \<Rightarrow> bool) \<Rightarrow> world \<Rightarrow> (py_error \<times> world) + world" where
  "chart_read ds lsm pg wr s0 =
     (case plt_subplots s0 of (ax2, s) \<Rightarrow>
        and_then (and_then (on_axes ax2 (read_draw ds lsm pg) s)
          (plt_savefig wr ''docs/images/lab3_read.png'' 300 True))
          (\<lambda>s. Inr (plt_close (py_print (saved_msg ''2'' ''docs/images/lab3_read.png'') s))))"

text \<open>Chart 3, the calls on \<^verbatim>\<open>ax3\<close>: the same layout for the write times.\<close>

definition write_draw ::
  "string list \<Rightarrow> float64 list \<Rightarrow> float64 list \<Rightarrow> axes \<Rightarrow> py_error + axes" where
  "write_draw ds lsm pg ax3 =
     (let x = arange (length ds); width = py_float 0.35
      in case ax_bar (map (\<lambda>xi. fsub xi (fdiv width 2)) x) lsm width ''LSM'' ax3 of
           Inl e \<Rightarrow> Inl e
         | Inr (bars1, ax3) \<Rightarrow>
       (case ax_bar (map (\<lambda>xi. fadd xi (fdiv width 2)) x) pg width ''PostgreSQL'' ax3 of
           Inl e \<Rightarrow> Inl e
         | Inr (bars2, ax3) \<Rightarrow>
           Inr (fold (\<lambda>bar. ax_text (label_x bar) (rect_height bar) (format_f 2 (rect_height bar)))
                  (concat [bars1, bars2])
                  (set_xticklabels ds (set_xticks x ax3)))))"

definition chart_write ::
  "string list \<Rightarrow> float64 list \<Rightarrow> float64 list \<Rightarrow>
   (string \<Rightarrow> bool) \<Rightarrow> world \<Rightarrow> (py_error \<times> world) + world" where
  "chart_write ds lsm pg wr s0 =
     (case plt_subplots s0 of (ax3, s) \<Rightarrow>
        and_then (and_then (on_axes ax3 (write_draw ds lsm pg) s)
          (plt_savefig wr ''docs/images/lab3_write.png'' 300 True))
          (\<lambda>s. Inr (plt_close (py_print (saved_msg ''3'' ''docs/images/lab3_write.png'') s))))"

text \<open>The whole script: the three charts on the literal data, then the closing message.\<close>

definition generate_charts :: "(string \<Rightarrow> bool) \<Rightarrow> world \<Rightarrow> (py_error \<times> world) + world" where
  "generate_charts wr s =
     and_then (and_then (and_then
       (chart_sizes datasets csv_sizes lsm_sizes pg_sizes wr s)
       (chart_read datasets lsm_read_times pg_read_times wr))
       (chart_write datasets lsm_write_times pg_write_times wr))
       (\<lambda>s. Inr (py_print done_msg s))"

section \<open>The script \<^verbatim>\<open>generate_compression_charts.py\<close>\<close>

definition algorithms :: "string list" where
  "algorithms =
     [''LZ77'' @ [CHR 0x0A] @ ''('' @
        [CHR 0xD0, CHR 0xBD, CHR 0xD0, CHR 0xB0, CHR 0xD1, CHR 0x88, CHR 0xD0, CHR 0xB0] @ '')'',
      ''GZIP'', ''ZSTD'']"

definition compression_ratios :: "float64 list" where
  "compression_ratios = [py_float 2.29, py_float 5.67, py_float 4.85]"

definition compress_times :: "float64 list" where
  "compress_times = [py_float 187.32, py_float 22.67, py_float 1.99]"

definition decompress_times :: "float64 list" where
  "decompress_times = [py_float 203.15, py_float 1.73, py_float 0.71]"

text \<open>
  Chart 1, the calls on \<^verbatim>\<open>ax1\<close>: one series over the algorithm names; the labels come
  from pairing the bars with the values.
\<close>

definition ratio_draw :: "string list \<Rightarrow> float64 list \<Rightarrow> axes \<Rightarrow> py_error + axes" where
  "ratio_draw algs ratios ax1 =
     (case ax_bar_cat algs ratios ax1 of
        Inl e \<Rightarrow> Inl e
      | Inr (bars, ax1) \<Rightarrow>
          Inr (fold (\<lambda>(bar, ratio). ax_text (label_x bar) (rect_height bar)
                                       (format_f 2 ratio @ times_sign))
                 (zip bars ratios) ax1))"

definition chart_ratio ::
  "string list \<Rightarrow> float64 list \<Rightarrow> (string \<Rightarrow> bool) \<Rightarrow> world \<Rightarrow> (py_error \<times> world) + world" where
  "chart_ratio algs ratios wr s0 =
     (case plt_subplots s0 of (ax1, s) \<Rightarrow>
        and_then (and_then (on_axes ax1 (ratio_draw algs ratios) s)
          (plt_savefig wr ''docs/images/lab4_compression_ratio.png'' 300 True))
          (\<lambda>s. Inr (plt_close
             (py_print (saved_msg ''1'' ''docs/images/lab4_compression_ratio.png'') s))))"

text \<open>Chart 2, the calls on \<^verbatim>\<open>ax2\<close>: compression times on a logarithmic axis.\<close>

definition compress_draw :: "string list \<Rightarrow> float64 list \<Rightarrow> axes \<Rightarrow> py_error + axes" where
  "compress_draw algs tms ax2 =
     (case ax_bar_cat algs tms ax2 of
        Inl e \<Rightarrow> Inl e
      | Inr (bars, ax2) \<Rightarrow>
          Inr (fold (\<lambda>(bar, time). ax_text (label_x bar) (rect_height bar)
                                      (format_f 2 time @ seconds_suffix))
                 (zip bars tms) (set_yscale Logarithmic ax2)))"

definition chart_compress ::
  "string list \<Rightarrow> float64 list \<Rightarrow> (string \<Rightarrow> bool) \<Rightarrow> world \<Rightarrow> (py_error \<times> world) + world" where
  "chart_compress algs tms wr s0 =
     (case plt_subplots s0 of (ax2, s) \<Rightarrow>
        and_then (and_then (on_axes ax2 (compress_draw algs tms) s)
          (plt_savefig wr ''docs/images/lab4_compress_time.png'' 300 True))
          (\<lambda>s. Inr (plt_close
             (py_print (saved_msg ''2'' ''docs/images/lab4_compress_time.png'') s))))"

text \<open>Chart 3, the calls on \<^verbatim>\<open>ax3\<close>: decompression times, again logarithmic.\<close>

definition decompress_draw :: "string list \<Rightarrow> float64 list \<Rightarrow> axes \<Rightarrow> py_error + axes" where
  "decompress_draw algs tms ax3 =
     (case ax_bar_cat algs tms ax3 of
        Inl e \<Rightarrow> Inl e
      | Inr (bars, ax3) \<Rightarrow>
          Inr (fold (\<lambda>(bar, time). ax_text (label_x bar) (rect_height bar)
                                      (format_f 2 time @ seconds_suffix))
                 (zip bars tms) (set_yscale Logarithmic ax3)))"

definition chart_decompress ::
  "string list \<Rightarrow> float64 list \<Rightarrow> (string \<Rightarrow> bool) \<Rightarrow> world \<Rightarrow> (py_error \<times> world) + world" where
  "chart_decompress algs tms wr s0 =
     (case plt_subplots s0 of (ax3, s) \<Rightarrow>
        and_then (and_then (on_axes ax3 (decompress_draw algs tms) s)
          (plt_savefig wr ''docs/images/lab4_decompress_time.png'' 300 True))
          (\<lambda>s. Inr (plt_close
             (py_print (saved_msg ''3'' ''docs/images/lab4_decompress_time.png'') s))))"

definition generate_compression_charts ::
  "(string \<Rightarrow> bool) \<Rightarrow> world \<Rightarrow> (py_error \<times> world) + world" where
  "generate_compression_charts wr s =
     and_then (and_then (and_then
       (chart_ratio algorithms compression_ratios wr s)
       (chart_compress algorithms compress_times wr))
       (chart_decompress algorithms decompress_times wr))
       (\<lambda>s. Inr (py_print done_msg s))"

section \<open>Vocabulary for the properties\<close>

text \<open>The paths the \<^verbatim>\<open>savefig\<close> calls of the two scripts name, in program order.\<close>

definition lab3_paths :: "string list" where
  "lab3_paths =
     [''docs/images/lab3_sizes.png'', ''docs/images/lab3_read.png'',
      ''docs/images/lab3_write.png'']"

definition lab4_paths :: "string list" where
  "lab4_paths =
     [''docs/images/lab4_compression_ratio.png'', ''docs/images/lab4_compress_time.png'',
      ''docs/images/lab4_decompress_time.png'']"

definition output_paths :: "string list" where
  "output_paths = lab3_paths @ lab4_paths"

text \<open>The figure a sequence of drawing calls leaves behind when none of them raises.\<close>

definition drawn :: "py_error + axes \<Rightarrow> axes" where
  "drawn r = (case r of Inl _ \<Rightarrow> new_axes | Inr a \<Rightarrow> a)"

text \<open>The six figures the scripts draw from their literal data.\<close>

definition lab3_sizes_fig :: axes where
  "lab3_sizes_fig = drawn (sizes_draw datasets csv_sizes lsm_sizes pg_sizes new_axes)"

definition lab3_read_fig :: axes where
  "lab3_read_fig = drawn (read_draw datasets lsm_read_times pg_read_times new_axes)"

definition lab3_write_fig :: axes where
  "lab3_write_fig = drawn (write_draw datasets lsm_write_times pg_write_times new_axes)"

definition lab4_ratio_fig :: axes where
  "lab4_ratio_fig = drawn (ratio_draw algorithms compression_ratios new_axes)"

definition lab4_compress_fig :: axes where
  "lab4_compress_fig = drawn (compress_draw algorithms compress_times new_axes)"

definition lab4_decompress_fig :: axes where
  "lab4_decompress_fig = drawn (decompress_draw algorithms decompress_times new_axes)"

text \<open>What \<^verbatim>\<open>savefig(path, dpi=300, bbox_inches='tight')\<close> stores for a figure.\<close>

definition saved :: "axes \<Rightarrow> string \<Rightarrow> image" where
  "saved a path = \<lparr>img_axes = a, img_dpi = 300, img_tight = True, img_format = format_of path\<rparr>"

text \<open>
  The shape the six chart blocks share: open a figure, draw on it, save it as a 300 DPI
  tightly cropped image, print the confirmation, close the figure.
\<close>

definition block ::
  "(axes \<Rightarrow> py_error + axes) \<Rightarrow> string \<Rightarrow> string \<Rightarrow> (string \<Rightarrow> bool) \<Rightarrow> world \<Rightarrow>
   (py_error \<times> world) + world" where
  "block f path m wr s0 =
     (case plt_subplots s0 of (ax, s) \<Rightarrow>
        and_then (and_then (on_axes ax f s) (plt_savefig wr path 300 True))
          (\<lambda>s. Inr (plt_close (py_print m s))))"

text \<open>
  Geometry of the bars, in exact arithmetic on the stored floats. The slot of the category
  at tick \<open>k\<close> is the open interval of length one around \<open>k\<close>; the bars of a figure are
  listed series by series, so the bars of one slot come out from left to right.
\<close>

definition all_bars :: "axes \<Rightarrow> rectangle list" where
  "all_bars ax = concat (map snd (containers ax))"

definition right_edge :: "rectangle \<Rightarrow> rat" where
  "right_edge r = rect_x r + rect_width r"

definition bars_at :: "axes \<Rightarrow> rat \<Rightarrow> rectangle list" where
  "bars_at ax k = filter (\<lambda>r. k - 1 / 2 < rect_x r \<and> right_edge r < k + 1 / 2) (all_bars ax)"










definition heights :: "axes \<Rightarrow> float64 list" where
  "heights ax = map rect_height (all_bars ax)"

definition label_texts :: "axes \<Rightarrow> string list" where
  "label_texts ax = map text_s (texts ax)"

text \<open>Environments: every path can be written, or none can; a file system holding nothing.\<close>

definition writable_all :: "string \<Rightarrow> bool" where
  "writable_all p = True"

definition writable_none :: "string \<Rightarrow> bool" where
  "writable_none p = False"

definition no_files :: "string \<rightharpoonup> image" where
  "no_files = Map.empty"

text \<open>One run of a script as a process of its own: the world it ends in.\<close>

definition run_charts :: "(string \<Rightarrow> bool) \<Rightarrow> (string \<rightharpoonup> image) \<Rightarrow> world" where
  "run_charts wr fs = final_world (generate_charts wr (start fs))"

definition run_compression_charts :: "(string \<Rightarrow> bool) \<Rightarrow> (string \<rightharpoonup> image) \<Rightarrow> world" where
  "run_compression_charts wr fs = final_world (generate_compression_charts wr (start fs))"

text \<open>
  What a block did at a path, as an observer of the file system sees it: the exception it
  ended with, or else the file at that path.
\<close>

definition outcome :: "string \<Rightarrow> (py_error \<times> world) + world \<Rightarrow> py_error + image option" where
  "outcome path r = (case r of Inl (e, _) \<Rightarrow> Inl e | Inr s \<Rightarrow> Inr (files s path))"

text \<open>The exception a run ended with, if any.\<close>

definition raised :: "(py_error \<times> world) + world \<Rightarrow> py_error option" where
  "raised r = (case r of Inl (e, _) \<Rightarrow> Some e | Inr _ \<Rightarrow> None)"

text \<open>Two lengths that numpy cannot broadcast against each other.\<close>

definition incompatible :: "nat \<Rightarrow> nat \<Rightarrow> bool" where
  "incompatible n m = (n \<noteq> m \<and> n \<noteq> 1 \<and> m \<noteq> 1)"

text \<open>Both scripts, one after the other, on the same file system.\<close>

definition run_both :: "(string \<Rightarrow> bool) \<Rightarrow> (string \<rightharpoonup> image) \<Rightarrow> world" where
  "run_both wr fs = run_compression_charts wr (files (run_charts wr fs))"

section \<open>The float model\<close>

text \<open>
  Rounding picks a nearest integer; \<open>ilog2\<close> is the binary exponent; so \<open>float_round q\<close>
  is a multiple of the unit in the last place within half a unit of \<open>q\<close>, and in the
  normal range its significand has 53 bits.
\<close>

lemma round_half_even_close: "\<bar>of_int (round_half_even q) - q\<bar> \<le> 1 / 2"
proof -
  have "of_int \<lfloor>q\<rfloor> \<le> q" "q < of_int \<lfloor>q\<rfloor> + 1"
    by linarith+
  then show ?thesis
    unfolding round_half_even_def Let_def by (auto simp: abs_le_iff)
qed

lemma ilog2_ge1:
  assumes "1 \<le> q"
  shows "2 powi ilog2 q \<le> q \<and> q < 2 powi (ilog2 q + 1)"
proof -
  let ?n = "\<lfloor>q\<rfloor>"
  from assms have n: "0 < ?n" by simp
  from bitlen_bounds [OF n] have lo: "2 ^ nat (bitlen ?n - 1) \<le> ?n" and hi: "?n < 2 ^ nat (bitlen ?n)"
    by simp_all
  from n have b: "1 \<le> bitlen ?n"
    by (simp add: bitlen_alt_def)
  have "(2::rat) powi (bitlen ?n - 1) = of_int (2 ^ nat (bitlen ?n - 1))"
    using b by (simp add: power_int_def)
  also have "\<dots> \<le> of_int ?n"
    using lo by (simp only: of_int_le_iff)
  also have "\<dots> \<le> q" by simp
  finally have 1: "2 powi (bitlen ?n - 1) \<le> q" .
  from hi have "?n + 1 \<le> 2 ^ nat (bitlen ?n)" by simp
  then have "of_int (?n + 1) \<le> (of_int (2 ^ nat (bitlen ?n)) :: rat)"
    by (simp only: of_int_le_iff)
  moreover have "q < of_int (?n + 1)" by simp linarith
  moreover have "(2::rat) powi (bitlen ?n) = of_int (2 ^ nat (bitlen ?n))"
    using b by (simp add: power_int_def)
  ultimately have 2: "q < 2 powi (bitlen ?n)" by simp
  from 1 2 assms show ?thesis
    by (simp add: ilog2_def)
qed


lemma ilog2_lt1:
  assumes "0 < q" and "q < 1"
  shows "2 powi ilog2 q \<le> q \<and> q < 2 powi (ilog2 q + 1)"
proof -
  let ?r = "1 / q"
  let ?m = "\<lceil>?r\<rceil> - 1"
  from assms have r: "1 < ?r" by simp
  then have m: "0 < ?m" by simp
  from bitlen_bounds [OF m] have lo: "2 ^ nat (bitlen ?m - 1) \<le> ?m" and hi: "?m < 2 ^ nat (bitlen ?m)"
    by simp_all
  from m have b: "1 \<le> bitlen ?m"
    by (simp add: bitlen_alt_def)
  have p1: "(2::rat) powi (bitlen ?m - 1) = of_int (2 ^ nat (bitlen ?m - 1))"
    and p2: "(2::rat) powi (bitlen ?m) = of_int (2 ^ nat (bitlen ?m))"
    using b by (simp_all add: power_int_def)
  have "of_int ?m < ?r" by linarith
  with lo have "(of_int (2 ^ nat (bitlen ?m - 1)) :: rat) < ?r"
    by (metis le_less_trans of_int_le_iff)
  then have u: "2 powi (bitlen ?m - 1) < ?r"
    by (simp only: p1)
  from hi have "?m + 1 \<le> 2 ^ nat (bitlen ?m)" by simp
  then have "(of_int (?m + 1) :: rat) \<le> of_int (2 ^ nat (bitlen ?m))"
    by (simp only: of_int_le_iff)
  moreover have "?r \<le> of_int (?m + 1)" by simp
  ultimately have l: "?r \<le> 2 powi (bitlen ?m)"
    by (simp only: p2)
  have pos: "(0::rat) < 2 powi (bitlen ?m)" "(0::rat) < 2 powi (bitlen ?m - 1)"
    by simp_all
  from assms have rpos: "0 < ?r" by simp
  from le_imp_inverse_le [OF l rpos] have 1: "2 powi (- bitlen ?m) \<le> q"
    by (simp add: power_int_minus)
  from less_imp_inverse_less [OF u pos(2)] have "q < inverse (2 powi (bitlen ?m - 1))"
    by simp
  also have "inverse ((2::rat) powi (bitlen ?m - 1)) = 2 powi (- (bitlen ?m - 1))"
    by (simp only: power_int_minus)
  also have "- (bitlen ?m - 1) = - bitlen ?m + 1"
    by simp
  finally have 2: "q < 2 powi (- bitlen ?m + 1)" .
  from 1 2 assms show ?thesis
    by (simp add: ilog2_def)
qed

lemma ilog2_bounds:
  "0 < q \<Longrightarrow> 2 powi ilog2 q \<le> q \<and> q < 2 powi (ilog2 q + 1)"
  using ilog2_ge1 [of q] ilog2_lt1 [of q] by (cases "1 \<le> q") simp_all


lemma float_round_close:
  assumes "q \<noteq> 0"
  shows "\<bar>float_round q - q\<bar> \<le> 2 powi (max (ilog2 \<bar>q\<bar> - 52) (- 1074)) / 2"
proof -
  let ?e = "max (ilog2 \<bar>q\<bar> - 52) (- 1074)"
  let ?P = "(2::rat) powi ?e"
  let ?m = "round_half_even (\<bar>q\<bar> / ?P)"
  have P: "0 < ?P" by simp
  have "float_round q - q = sgn q * (of_int ?m * ?P - \<bar>q\<bar>)"
    using assms by (simp add: float_round_def Let_def algebra_simps flip: abs_sgn)
       (metis mult.commute mult_sgn_abs)
  then have "\<bar>float_round q - q\<bar> = \<bar>of_int ?m * ?P - \<bar>q\<bar>\<bar>"
    using assms by (simp add: abs_mult abs_sgn_eq)
  also have "of_int ?m * ?P - \<bar>q\<bar> = (of_int ?m - \<bar>q\<bar> / ?P) * ?P"
    using P by (simp add: field_simps)
  also have "\<bar>\<dots>\<bar> = \<bar>of_int ?m - \<bar>q\<bar> / ?P\<bar> * ?P"
    using P by (simp add: abs_mult)
  also have "\<dots> \<le> 1 / 2 * ?P"
    using P round_half_even_close [of "\<bar>q\<bar> / ?P"] by (intro mult_right_mono) simp_all
  finally show ?thesis by simp
qed

lemma normal_significand:
  assumes "2 powi (- 1022) \<le> \<bar>q\<bar>"
  shows "max (ilog2 \<bar>q\<bar> - 52) (- 1074) = ilog2 \<bar>q\<bar> - 52"
    and "2 ^ 52 \<le> \<bar>q\<bar> / 2 powi (ilog2 \<bar>q\<bar> - 52)"
    and "\<bar>q\<bar> / 2 powi (ilog2 \<bar>q\<bar> - 52) < 2 ^ 53"
proof -
  let ?k = "ilog2 \<bar>q\<bar>"
  have "(0::rat) < 2 powi (- 1022)" by simp
  with assms have pos: "0 < \<bar>q\<bar>" by linarith
  from ilog2_bounds [OF pos] have lo: "2 powi ?k \<le> \<bar>q\<bar>" and hi: "\<bar>q\<bar> < 2 powi (?k + 1)"
    by simp_all
  from assms hi have "(2::rat) powi (- 1022) < 2 powi (?k + 1)" by linarith
  have "- 1022 < ?k + 1"
  proof (rule ccontr)
    assume "\<not> - 1022 < ?k + 1"
    then have "?k + 1 \<le> - 1022" by simp
    then have "(2::rat) powi (?k + 1) \<le> 2 powi (- 1022)"
      by (intro power_int_increasing) simp_all
    with \<open>(2::rat) powi (- 1022) < 2 powi (?k + 1)\<close> show False by simp
  qed
  then show "max (?k - 52) (- 1074) = ?k - 52" by simp
  have P: "(0::rat) < 2 powi (?k - 52)" by simp
  have "(2::rat) ^ 52 * 2 powi (?k - 52) = 2 powi ?k"
    by (simp add: power_int_diff)
  with lo P show "2 ^ 52 \<le> \<bar>q\<bar> / 2 powi (?k - 52)"
    by (simp add: pos_le_divide_eq)
  have "(2::rat) ^ 53 * 2 powi (?k - 52) = 2 powi (?k + 1)"
    by (simp add: power_int_diff power_int_add)
  with hi P show "\<bar>q\<bar> / 2 powi (?k - 52) < 2 ^ 53"
    by (simp add: pos_divide_less_eq)
qed

section \<open>Evaluating the floats of the two scripts\<close>

text \<open>
  The series as the exact binary values their literals denote, and every rounded operation
  the six charts perform on them, each computed inside the logic. The values are the ones
  CPython has: \<^verbatim>\<open>(265.49).as_integer_ratio()\<close> is the first fraction below, and
  \<^verbatim>\<open>'%.1f' % 792.45\<close> is \<^verbatim>\<open>792.5\<close> because the float lies just above the decimal.
\<close>

lemma series_values:
  "csv_sizes = [1167637368233001 / 4398046511104, 2197692846482391 / 549755813888]"
  "lsm_sizes = [3485231957724365 / 4398046511104, 1720092483167191 / 274877906944]"
  "pg_sizes = [630113621204009 / 549755813888, 4941172269876511 / 549755813888]"
  "lsm_read_times = [869757678035927 / 35184372088832, 3891391553024819 / 35184372088832]"
  "pg_read_times = [975310794302423 / 140737488355328, 3699988568861573 / 70368744177664]"
  "lsm_write_times = [715738089217065 / 4398046511104, 635748618296361 / 1099511627776]"
  "pg_write_times = [5179667337057403 / 17592186044416, 3346693492624589 / 2199023255552]"
  "compression_ratios = [2578310786669609 / 1125899906842624, 3191926235898839 / 562949953421312, 2730307274093363 / 562949953421312]"
  "compress_times = [3295368289840005 / 17592186044416, 1595259430507643 / 70368744177664, 8962163258467287 / 4503599627370496]"
  "decompress_times = [7147705189846221 / 35184372088832, 3895613677675479 / 2251799813685248, 799388933858263 / 1125899906842624]"
  by code_simp+

lemma bar_widths:
  "py_float (1 / 4) = 1 / 4"
  "py_float (7 / 20) = 3152519739159347 / 9007199254740992"
  "py_float (4 / 5) = 3602879701896397 / 4503599627370496"
  by code_simp+

lemma float_ops_1:
  "fsub 0 (1 / 4) = - (1 / 4)"
  "fsub 1 (1 / 4) = 3 / 4"
  "fadd (- (1 / 4)) (1 / 4) = 0"
  "fsub 0 (- (1 / 4)) = 1 / 4"
  "fdiv (1 / 4) 2 = 1 / 8"
  "fsub (- (1 / 4)) (1 / 8) = - (3 / 8)"
  "fsub (3 / 4) (1 / 8) = 5 / 8"
  "fadd 0 (1 / 4) = 1 / 4"
  "fsub (1 / 4) 0 = 1 / 4"
  by code_simp+

lemma float_ops_2:
  "fsub 0 (1 / 8) = - (1 / 8)"
  "fsub 1 (1 / 8) = 7 / 8"
  "fadd 1 (1 / 4) = 5 / 4"
  "fadd (1 / 4) (1 / 4) = 1 / 2"
  "fsub (1 / 2) (1 / 4) = 1 / 4"
  "fsub (1 / 4) (1 / 8) = 1 / 8"
  "fsub (5 / 4) (1 / 8) = 9 / 8"
  "fadd (- (3 / 8)) (1 / 8) = - (1 / 4)"
  "fadd (5 / 8) (1 / 8) = 3 / 4"
  by code_simp+

lemma float_ops_3:
  "fadd (- (1 / 8)) (1 / 8) = 0"
  "fadd (7 / 8) (1 / 8) = 1"
  "fadd (1 / 8) (1 / 8) = 1 / 4"
  "fadd (9 / 8) (1 / 8) = 5 / 4"
  "fdiv (3152519739159347 / 9007199254740992) 2 = 3152519739159347 / 18014398509481984"
  "fsub 0 (3152519739159347 / 18014398509481984) = - (3152519739159347 / 18014398509481984)"
  "fsub 1 (3152519739159347 / 18014398509481984) = 3715469692580659 / 4503599627370496"
  "fadd (- (3152519739159347 / 18014398509481984)) (3152519739159347 / 9007199254740992) = 3152519739159347 / 18014398509481984"
  "fsub (3152519739159347 / 18014398509481984) (- (3152519739159347 / 18014398509481984)) = 3152519739159347 / 9007199254740992"
  by code_simp+

lemma float_ops_4:
  "fsub (- (3152519739159347 / 18014398509481984)) (3152519739159347 / 18014398509481984) = - (3152519739159347 / 9007199254740992)"
  "fsub (3715469692580659 / 4503599627370496) (3152519739159347 / 18014398509481984) = 1463669878895411 / 2251799813685248"
  "fadd 0 (3152519739159347 / 18014398509481984) = 3152519739159347 / 18014398509481984"
  "fadd 1 (3152519739159347 / 18014398509481984) = 5291729562160333 / 4503599627370496"
  "fadd (3152519739159347 / 18014398509481984) (3152519739159347 / 9007199254740992) = 1182194902184755 / 2251799813685248"
  "fsub (1182194902184755 / 2251799813685248) (3152519739159347 / 18014398509481984) = 6305039478318693 / 18014398509481984"
  "fdiv (6305039478318693 / 18014398509481984) 2 = 6305039478318693 / 36028797018963968"
  "fsub (3152519739159347 / 18014398509481984) (6305039478318693 / 36028797018963968) = 1 / 36028797018963968"
  "fsub (5291729562160333 / 4503599627370496) (6305039478318693 / 36028797018963968) = 1"
  by code_simp+

lemma float_ops_5:
  "fadd (- (3152519739159347 / 9007199254740992)) (3152519739159347 / 18014398509481984) = - (3152519739159347 / 18014398509481984)"
  "fadd (1463669878895411 / 2251799813685248) (3152519739159347 / 18014398509481984) = 3715469692580659 / 4503599627370496"
  "fadd (1 / 36028797018963968) (6305039478318693 / 36028797018963968) = 3152519739159347 / 18014398509481984"
  "fadd 1 (6305039478318693 / 36028797018963968) = 5291729562160333 / 4503599627370496"
  "fdiv (3602879701896397 / 4503599627370496) 2 = 3602879701896397 / 9007199254740992"
  "fsub 0 (3602879701896397 / 9007199254740992) = - (3602879701896397 / 9007199254740992)"
  "fsub 1 (3602879701896397 / 9007199254740992) = 5404319552844595 / 9007199254740992"
  "fsub 2 (3602879701896397 / 9007199254740992) = 3602879701896397 / 2251799813685248"
  "fadd (- (3602879701896397 / 9007199254740992)) (3602879701896397 / 9007199254740992) = 0"
  by code_simp+

lemma float_ops_6:
  "fadd (5404319552844595 / 9007199254740992) (3602879701896397 / 9007199254740992) = 1"
  "fadd (3602879701896397 / 2251799813685248) (3602879701896397 / 9007199254740992) = 2"
  by code_simp+

lemma one_decimal_1:
  "format_f 1 (1167637368233001 / 4398046511104) = ''265.5''"
  "format_f 1 (2197692846482391 / 549755813888) = ''3997.6''"
  "format_f 1 (3485231957724365 / 4398046511104) = ''792.5''"
  "format_f 1 (1720092483167191 / 274877906944) = ''6257.7''"
  "format_f 1 (630113621204009 / 549755813888) = ''1146.2''"
  "format_f 1 (4941172269876511 / 549755813888) = ''8987.9''"
  by code_simp+

lemma two_decimals_1:
  "format_f 2 (869757678035927 / 35184372088832) = ''24.72''"
  "format_f 2 (3891391553024819 / 35184372088832) = ''110.60''"
  "format_f 2 (975310794302423 / 140737488355328) = ''6.93''"
  "format_f 2 (3699988568861573 / 70368744177664) = ''52.58''"
  "format_f 2 (715738089217065 / 4398046511104) = ''162.74''"
  "format_f 2 (635748618296361 / 1099511627776) = ''578.21''"
  by code_simp+

lemma two_decimals_2:
  "format_f 2 (5179667337057403 / 17592186044416) = ''294.43''"
  "format_f 2 (3346693492624589 / 2199023255552) = ''1521.90''"
  "format_f 2 (2578310786669609 / 1125899906842624) = ''2.29''"
  "format_f 2 (3191926235898839 / 562949953421312) = ''5.67''"
  "format_f 2 (2730307274093363 / 562949953421312) = ''4.85''"
  "format_f 2 (3295368289840005 / 17592186044416) = ''187.32''"
  by code_simp+

lemma two_decimals_3:
  "format_f 2 (1595259430507643 / 70368744177664) = ''22.67''"
  "format_f 2 (8962163258467287 / 4503599627370496) = ''1.99''"
  "format_f 2 (7147705189846221 / 35184372088832) = ''203.15''"
  "format_f 2 (3895613677675479 / 2251799813685248) = ''1.73''"
  "format_f 2 (799388933858263 / 1125899906842624) = ''0.71''"
  by code_simp+

lemma format_of_paths:
  "format_of ''docs/images/lab3_sizes.png'' = ''png''"
  "format_of ''docs/images/lab3_read.png'' = ''png''"
  "format_of ''docs/images/lab3_write.png'' = ''png''"
  "format_of ''docs/images/lab4_compression_ratio.png'' = ''png''"
  "format_of ''docs/images/lab4_compress_time.png'' = ''png''"
  "format_of ''docs/images/lab4_decompress_time.png'' = ''png''"
  by code_simp+

lemmas float_eval = series_values bar_widths float_ops_1 float_ops_2 float_ops_3 float_ops_4 float_ops_5 float_ops_6
  one_decimal_1 [unfolded One_nat_def]
  two_decimals_1 two_decimals_2 two_decimals_3

section \<open>The six figures\<close>

lemmas draw_defs = ax_bar_def add_bars_def convert_dx_def bar_rects_def broadcast_def arange_def
  label_x_def set_xticks_def set_xticklabels_def set_yscale_def ax_text_def ax_bar_cat_def
  category_units_def category_position_def new_axes_def Let_def

lemma sizes_draw_lit:
  "sizes_draw datasets csv_sizes lsm_sizes pg_sizes new_axes =
   Inr \<lparr>containers =
       [(''CSV'',
         [\<lparr>rect_x = - (3 / 8), rect_width = 1 / 4, rect_height = 1167637368233001 / 4398046511104\<rparr>,
          \<lparr>rect_x = 5 / 8, rect_width = 1 / 4, rect_height = 2197692846482391 / 549755813888\<rparr>]),
        (''LSM'',
         [\<lparr>rect_x = - (1 / 8), rect_width = 1 / 4, rect_height = 3485231957724365 / 4398046511104\<rparr>,
          \<lparr>rect_x = 7 / 8, rect_width = 1 / 4, rect_height = 1720092483167191 / 274877906944\<rparr>]),
        (''PostgreSQL'',
         [\<lparr>rect_x = 1 / 8, rect_width = 1 / 4, rect_height = 630113621204009 / 549755813888\<rparr>,
          \<lparr>rect_x = 9 / 8, rect_width = 1 / 4, rect_height = 4941172269876511 / 549755813888\<rparr>])],
     texts =
       [\<lparr>text_x = - (1 / 4), text_y = 1167637368233001 / 4398046511104, text_s = ''265.5''\<rparr>,
        \<lparr>text_x = 3 / 4, text_y = 2197692846482391 / 549755813888, text_s = ''3997.6''\<rparr>,
        \<lparr>text_x = 0, text_y = 3485231957724365 / 4398046511104, text_s = ''792.5''\<rparr>,
        \<lparr>text_x = 1, text_y = 1720092483167191 / 274877906944, text_s = ''6257.7''\<rparr>,
        \<lparr>text_x = 1 / 4, text_y = 630113621204009 / 549755813888, text_s = ''1146.2''\<rparr>,
        \<lparr>text_x = 5 / 4, text_y = 4941172269876511 / 549755813888, text_s = ''8987.9''\<rparr>],
     xticks = [0, 1],
     xticklabels = datasets,
     yscale = Linear\<rparr>"
  by (simp add: sizes_draw_def draw_defs datasets_def float_eval)

lemma lab3_sizes_fig_eq:
  "lab3_sizes_fig =
   \<lparr>containers =
       [(''CSV'',
         [\<lparr>rect_x = - (3 / 8), rect_width = 1 / 4, rect_height = 1167637368233001 / 4398046511104\<rparr>,
          \<lparr>rect_x = 5 / 8, rect_width = 1 / 4, rect_height = 2197692846482391 / 549755813888\<rparr>]),
        (''LSM'',
         [\<lparr>rect_x = - (1 / 8), rect_width = 1 / 4, rect_height = 3485231957724365 / 4398046511104\<rparr>,
          \<lparr>rect_x = 7 / 8, rect_width = 1 / 4, rect_height = 1720092483167191 / 274877906944\<rparr>]),
        (''PostgreSQL'',
         [\<lparr>rect_x = 1 / 8, rect_width = 1 / 4, rect_height = 630113621204009 / 549755813888\<rparr>,
          \<lparr>rect_x = 9 / 8, rect_width = 1 / 4, rect_height = 4941172269876511 / 549755813888\<rparr>])],
     texts =
       [\<lparr>text_x = - (1 / 4), text_y = 1167637368233001 / 4398046511104, text_s = ''265.5''\<rparr>,
        \<lparr>text_x = 3 / 4, text_y = 2197692846482391 / 549755813888, text_s = ''3997.6''\<rparr>,
        \<lparr>text_x = 0, text_y = 3485231957724365 / 4398046511104, text_s = ''792.5''\<rparr>,
        \<lparr>text_x = 1, text_y = 1720092483167191 / 274877906944, text_s = ''6257.7''\<rparr>,
        \<lparr>text_x = 1 / 4, text_y = 630113621204009 / 549755813888, text_s = ''1146.2''\<rparr>,
        \<lparr>text_x = 5 / 4, text_y = 4941172269876511 / 549755813888, text_s = ''8987.9''\<rparr>],
     xticks = [0, 1],
     xticklabels = datasets,
     yscale = Linear\<rparr>"
  by (simp add: lab3_sizes_fig_def drawn_def sizes_draw_lit)

lemma read_draw_lit:
  "read_draw datasets lsm_read_times pg_read_times new_axes =
   Inr \<lparr>containers =
       [(''LSM'',
         [\<lparr>rect_x = - (3152519739159347 / 9007199254740992), rect_width = 3152519739159347 / 9007199254740992, rect_height = 869757678035927 / 35184372088832\<rparr>,
          \<lparr>rect_x = 1463669878895411 / 2251799813685248, rect_width = 3152519739159347 / 9007199254740992, rect_height = 3891391553024819 / 35184372088832\<rparr>]),
        (''PostgreSQL'',
         [\<lparr>rect_x = 1 / 36028797018963968, rect_width = 6305039478318693 / 18014398509481984, rect_height = 975310794302423 / 140737488355328\<rparr>,
          \<lparr>rect_x = 1, rect_width = 6305039478318693 / 18014398509481984, rect_height = 3699988568861573 / 70368744177664\<rparr>])],
     texts =
       [\<lparr>text_x = - (3152519739159347 / 18014398509481984), text_y = 869757678035927 / 35184372088832, text_s = ''24.72''\<rparr>,
        \<lparr>text_x = 3715469692580659 / 4503599627370496, text_y = 3891391553024819 / 35184372088832, text_s = ''110.60''\<rparr>,
        \<lparr>text_x = 3152519739159347 / 18014398509481984, text_y = 975310794302423 / 140737488355328, text_s = ''6.93''\<rparr>,
        \<lparr>text_x = 5291729562160333 / 4503599627370496, text_y = 3699988568861573 / 70368744177664, text_s = ''52.58''\<rparr>],
     xticks = [0, 1],
     xticklabels = datasets,
     yscale = Linear\<rparr>"
  by (simp add: read_draw_def draw_defs datasets_def float_eval)

lemma lab3_read_fig_eq:
  "lab3_read_fig =
   \<lparr>containers =
       [(''LSM'',
         [\<lparr>rect_x = - (3152519739159347 / 9007199254740992), rect_width = 3152519739159347 / 9007199254740992, rect_height = 869757678035927 / 35184372088832\<rparr>,
          \<lparr>rect_x = 1463669878895411 / 2251799813685248, rect_width = 3152519739159347 / 9007199254740992, rect_height = 3891391553024819 / 35184372088832\<rparr>]),
        (''PostgreSQL'',
         [\<lparr>rect_x = 1 / 36028797018963968, rect_width = 6305039478318693 / 18014398509481984, rect_height = 975310794302423 / 140737488355328\<rparr>,
          \<lparr>rect_x = 1, rect_width = 6305039478318693 / 18014398509481984, rect_height = 3699988568861573 / 70368744177664\<rparr>])],
     texts =
       [\<lparr>text_x = - (3152519739159347 / 18014398509481984), text_y = 869757678035927 / 35184372088832, text_s = ''24.72''\<rparr>,
        \<lparr>text_x = 3715469692580659 / 4503599627370496, text_y = 3891391553024819 / 35184372088832, text_s = ''110.60''\<rparr>,
        \<lparr>text_x = 3152519739159347 / 18014398509481984, text_y = 975310794302423 / 140737488355328, text_s = ''6.93''\<rparr>,
        \<lparr>text_x = 5291729562160333 / 4503599627370496, text_y = 3699988568861573 / 70368744177664, text_s = ''52.58''\<rparr>],
     xticks = [0, 1],
     xticklabels = datasets,
     yscale = Linear\<rparr>"
  by (simp add: lab3_read_fig_def drawn_def read_draw_lit)

lemma write_draw_lit:
  "write_draw datasets lsm_write_times pg_write_times new_axes =
   Inr \<lparr>containers =
       [(''LSM'',
         [\<lparr>rect_x = - (3152519739159347 / 9007199254740992), rect_width = 3152519739159347 / 9007199254740992, rect_height = 715738089217065 / 4398046511104\<rparr>,
          \<lparr>rect_x = 1463669878895411 / 2251799813685248, rect_width = 3152519739159347 / 9007199254740992, rect_height = 635748618296361 / 1099511627776\<rparr>]),
        (''PostgreSQL'',
         [\<lparr>rect_x = 1 / 36028797018963968, rect_width = 6305039478318693 / 18014398509481984, rect_height = 5179667337057403 / 17592186044416\<rparr>,
          \<lparr>rect_x = 1, rect_width = 6305039478318693 / 18014398509481984, rect_height = 3346693492624589 / 2199023255552\<rparr>])],
     texts =
       [\<lparr>text_x = - (3152519739159347 / 18014398509481984), text_y = 715738089217065 / 4398046511104, text_s = ''162.74''\<rparr>,
        \<lparr>text_x = 3715469692580659 / 4503599627370496, text_y = 635748618296361 / 1099511627776, text_s = ''578.21''\<rparr>,
        \<lparr>text_x = 3152519739159347 / 18014398509481984, text_y = 5179667337057403 / 17592186044416, text_s = ''294.43''\<rparr>,
        \<lparr>text_x = 5291729562160333 / 4503599627370496, text_y = 3346693492624589 / 2199023255552, text_s = ''1521.90''\<rparr>],
     xticks = [0, 1],
     xticklabels = datasets,
     yscale = Linear\<rparr>"
  by (simp add: write_draw_def draw_defs datasets_def float_eval)

lemma lab3_write_fig_eq:
  "lab3_write_fig =
   \<lparr>containers =
       [(''LSM'',
         [\<lparr>rect_x = - (3152519739159347 / 9007199254740992), rect_width = 3152519739159347 / 9007199254740992, rect_height = 715738089217065 / 4398046511104\<rparr>,
          \<lparr>rect_x = 1463669878895411 / 2251799813685248, rect_width = 3152519739159347 / 9007199254740992, rect_height = 635748618296361 / 1099511627776\<rparr>]),
        (''PostgreSQL'',
         [\<lparr>rect_x = 1 / 36028797018963968, rect_width = 6305039478318693 / 18014398509481984, rect_height = 5179667337057403 / 17592186044416\<rparr>,
          \<lparr>rect_x = 1, rect_width = 6305039478318693 / 18014398509481984, rect_height = 3346693492624589 / 2199023255552\<rparr>])],
     texts =
       [\<lparr>text_x = - (3152519739159347 / 18014398509481984), text_y = 715738089217065 / 4398046511104, text_s = ''162.74''\<rparr>,
        \<lparr>text_x = 3715469692580659 / 4503599627370496, text_y = 635748618296361 / 1099511627776, text_s = ''578.21''\<rparr>,
        \<lparr>text_x = 3152519739159347 / 18014398509481984, text_y = 5179667337057403 / 17592186044416, text_s = ''294.43''\<rparr>,
        \<lparr>text_x = 5291729562160333 / 4503599627370496, text_y = 3346693492624589 / 2199023255552, text_s = ''1521.90''\<rparr>],
     xticks = [0, 1],
     xticklabels = datasets,
     yscale = Linear\<rparr>"
  by (simp add: lab3_write_fig_def drawn_def write_draw_lit)

lemma ratio_draw_lit:
  "ratio_draw algorithms compression_ratios new_axes =
   Inr \<lparr>containers =
       [(''_nolegend_'',
         [\<lparr>rect_x = - (3602879701896397 / 9007199254740992), rect_width = 3602879701896397 / 4503599627370496, rect_height = 2578310786669609 / 1125899906842624\<rparr>,
          \<lparr>rect_x = 5404319552844595 / 9007199254740992, rect_width = 3602879701896397 / 4503599627370496, rect_height = 3191926235898839 / 562949953421312\<rparr>,
          \<lparr>rect_x = 3602879701896397 / 2251799813685248, rect_width = 3602879701896397 / 4503599627370496, rect_height = 2730307274093363 / 562949953421312\<rparr>])],
     texts =
       [\<lparr>text_x = 0, text_y = 2578310786669609 / 1125899906842624, text_s = ''2.29'' @ times_sign\<rparr>,
        \<lparr>text_x = 1, text_y = 3191926235898839 / 562949953421312, text_s = ''5.67'' @ times_sign\<rparr>,
        \<lparr>text_x = 2, text_y = 2730307274093363 / 562949953421312, text_s = ''4.85'' @ times_sign\<rparr>],
     xticks = [0, 1, 2],
     xticklabels = algorithms,
     yscale = Linear\<rparr>"
  by (simp add: ratio_draw_def draw_defs algorithms_def float_eval)

lemma lab4_ratio_fig_eq:
  "lab4_ratio_fig =
   \<lparr>containers =
       [(''_nolegend_'',
         [\<lparr>rect_x = - (3602879701896397 / 9007199254740992), rect_width = 3602879701896397 / 4503599627370496, rect_height = 2578310786669609 / 1125899906842624\<rparr>,
          \<lparr>rect_x = 5404319552844595 / 9007199254740992, rect_width = 3602879701896397 / 4503599627370496, rect_height = 3191926235898839 / 562949953421312\<rparr>,
          \<lparr>rect_x = 3602879701896397 / 2251799813685248, rect_width = 3602879701896397 / 4503599627370496, rect_height = 2730307274093363 / 562949953421312\<rparr>])],
     texts =
       [\<lparr>text_x = 0, text_y = 2578310786669609 / 1125899906842624, text_s = ''2.29'' @ times_sign\<rparr>,
        \<lparr>text_x = 1, text_y = 3191926235898839 / 562949953421312, text_s = ''5.67'' @ times_sign\<rparr>,
        \<lparr>text_x = 2, text_y = 2730307274093363 / 562949953421312, text_s = ''4.85'' @ times_sign\<rparr>],
     xticks = [0, 1, 2],
     xticklabels = algorithms,
     yscale = Linear\<rparr>"
  by (simp add: lab4_ratio_fig_def drawn_def ratio_draw_lit)

lemma compress_draw_lit:
  "compress_draw algorithms compress_times new_axes =
   Inr \<lparr>containers =
       [(''_nolegend_'',
         [\<lparr>rect_x = - (3602879701896397 / 9007199254740992), rect_width = 3602879701896397 / 4503599627370496, rect_height = 3295368289840005 / 17592186044416\<rparr>,
          \<lparr>rect_x = 5404319552844595 / 9007199254740992, rect_width = 3602879701896397 / 4503599627370496, rect_height = 1595259430507643 / 70368744177664\<rparr>,
          \<lparr>rect_x = 3602879701896397 / 2251799813685248, rect_width = 3602879701896397 / 4503599627370496, rect_height = 8962163258467287 / 4503599627370496\<rparr>])],
     texts =
       [\<lparr>text_x = 0, text_y = 3295368289840005 / 17592186044416, text_s = ''187.32'' @ seconds_suffix\<rparr>,
        \<lparr>text_x = 1, text_y = 1595259430507643 / 70368744177664, text_s = ''22.67'' @ seconds_suffix\<rparr>,
        \<lparr>text_x = 2, text_y = 8962163258467287 / 4503599627370496, text_s = ''1.99'' @ seconds_suffix\<rparr>],
     xticks = [0, 1, 2],
     xticklabels = algorithms,
     yscale = Logarithmic\<rparr>"
  by (simp add: compress_draw_def draw_defs algorithms_def float_eval)

lemma lab4_compress_fig_eq:
  "lab4_compress_fig =
   \<lparr>containers =
       [(''_nolegend_'',
         [\<lparr>rect_x = - (3602879701896397 / 9007199254740992), rect_width = 3602879701896397 / 4503599627370496, rect_height = 3295368289840005 / 17592186044416\<rparr>,
          \<lparr>rect_x = 5404319552844595 / 9007199254740992, rect_width = 3602879701896397 / 4503599627370496, rect_height = 1595259430507643 / 70368744177664\<rparr>,
          \<lparr>rect_x = 3602879701896397 / 2251799813685248, rect_width = 3602879701896397 / 4503599627370496, rect_height = 8962163258467287 / 4503599627370496\<rparr>])],
     texts =
       [\<lparr>text_x = 0, text_y = 3295368289840005 / 17592186044416, text_s = ''187.32'' @ seconds_suffix\<rparr>,
        \<lparr>text_x = 1, text_y = 1595259430507643 / 70368744177664, text_s = ''22.67'' @ seconds_suffix\<rparr>,
        \<lparr>text_x = 2, text_y = 8962163258467287 / 4503599627370496, text_s = ''1.99'' @ seconds_suffix\<rparr>],
     xticks = [0, 1, 2],
     xticklabels = algorithms,
     yscale = Logarithmic\<rparr>"
  by (simp add: lab4_compress_fig_def drawn_def compress_draw_lit)

lemma decompress_draw_lit:
  "decompress_draw algorithms decompress_times new_axes =
   Inr \<lparr>containers =
       [(''_nolegend_'',
         [\<lparr>rect_x = - (3602879701896397 / 9007199254740992), rect_width = 3602879701896397 / 4503599627370496, rect_height = 7147705189846221 / 35184372088832\<rparr>,
          \<lparr>rect_x = 5404319552844595 / 9007199254740992, rect_width = 3602879701896397 / 4503599627370496, rect_height = 3895613677675479 / 2251799813685248\<rparr>,
          \<lparr>rect_x = 3602879701896397 / 2251799813685248, rect_width = 3602879701896397 / 4503599627370496, rect_height = 799388933858263 / 1125899906842624\<rparr>])],
     texts =
       [\<lparr>text_x = 0, text_y = 7147705189846221 / 35184372088832, text_s = ''203.15'' @ seconds_suffix\<rparr>,
        \<lparr>text_x = 1, text_y = 3895613677675479 / 2251799813685248, text_s = ''1.73'' @ seconds_suffix\<rparr>,
        \<lparr>text_x = 2, text_y = 799388933858263 / 1125899906842624, text_s = ''0.71'' @ seconds_suffix\<rparr>],
     xticks = [0, 1, 2],
     xticklabels = algorithms,
     yscale = Logarithmic\<rparr>"
  by (simp add: decompress_draw_def draw_defs algorithms_def float_eval)

lemma lab4_decompress_fig_eq:
  "lab4_decompress_fig =
   \<lparr>containers =
       [(''_nolegend_'',
         [\<lparr>rect_x = - (3602879701896397 / 9007199254740992), rect_width = 3602879701896397 / 4503599627370496, rect_height = 7147705189846221 / 35184372088832\<rparr>,
          \<lparr>rect_x = 5404319552844595 / 9007199254740992, rect_width = 3602879701896397 / 4503599627370496, rect_height = 3895613677675479 / 2251799813685248\<rparr>,
          \<lparr>rect_x = 3602879701896397 / 2251799813685248, rect_width = 3602879701896397 / 4503599627370496, rect_height = 799388933858263 / 1125899906842624\<rparr>])],
     texts =
       [\<lparr>text_x = 0, text_y = 7147705189846221 / 35184372088832, text_s = ''203.15'' @ seconds_suffix\<rparr>,
        \<lparr>text_x = 1, text_y = 3895613677675479 / 2251799813685248, text_s = ''1.73'' @ seconds_suffix\<rparr>,
        \<lparr>text_x = 2, text_y = 799388933858263 / 1125899906842624, text_s = ''0.71'' @ seconds_suffix\<rparr>],
     xticks = [0, 1, 2],
     xticklabels = algorithms,
     yscale = Logarithmic\<rparr>"
  by (simp add: lab4_decompress_fig_def drawn_def decompress_draw_lit)

section \<open>The blocks and the scripts, step by step\<close>

lemma chart_blocks:
  "chart_sizes ds csv lsm pg = block (sizes_draw ds csv lsm pg) ''docs/images/lab3_sizes.png''
     (saved_msg ''1'' ''docs/images/lab3_sizes.png'')"
  "chart_read ds lsm pg = block (read_draw ds lsm pg) ''docs/images/lab3_read.png''
     (saved_msg ''2'' ''docs/images/lab3_read.png'')"
  "chart_write ds lsm pg = block (write_draw ds lsm pg) ''docs/images/lab3_write.png''
     (saved_msg ''3'' ''docs/images/lab3_write.png'')"
  "chart_ratio algs rs = block (ratio_draw algs rs) ''docs/images/lab4_compression_ratio.png''
     (saved_msg ''1'' ''docs/images/lab4_compression_ratio.png'')"
  "chart_compress algs ts = block (compress_draw algs ts) ''docs/images/lab4_compress_time.png''
     (saved_msg ''2'' ''docs/images/lab4_compress_time.png'')"
  "chart_decompress algs ts = block (decompress_draw algs ts) ''docs/images/lab4_decompress_time.png''
     (saved_msg ''3'' ''docs/images/lab4_decompress_time.png'')"
  by (simp_all add: chart_sizes_def chart_read_def chart_write_def chart_ratio_def
      chart_compress_def chart_decompress_def block_def fun_eq_iff)

text \<open>A block whose drawing succeeds and whose path can be written.\<close>

lemma block_ok:
  assumes "f new_axes = Inr a" and "wr path"
  shows "block f path m wr s =
     Inr (s\<lparr>files := (files s)(path \<mapsto> saved a path), stdout := stdout s @ [m]\<rparr>)"
  using assms
  by (simp add: block_def plt_subplots_def on_axes_def and_then_def plt_savefig_def
      plt_gcf_def py_print_def plt_close_def saved_def)

text \<open>A block whose drawing raises: the figure stays open, nothing is saved or printed.\<close>

lemma block_draw_fails:
  assumes "f new_axes = Inl e"
  shows "block f path m wr s = Inl (e, s\<lparr>figs := figs s @ [new_axes]\<rparr>)"
  using assms
  by (simp add: block_def plt_subplots_def on_axes_def and_then_def)

text \<open>A block whose path cannot be written.\<close>

lemma block_save_fails:
  assumes "f new_axes = Inr a" and "\<not> wr path"
  shows "block f path m wr s = Inl (OSError, s\<lparr>figs := figs s @ [a]\<rparr>)"
  using assms
  by (simp add: block_def plt_subplots_def on_axes_def and_then_def plt_savefig_def
      plt_gcf_def)

lemma draws_lit:
  "sizes_draw datasets csv_sizes lsm_sizes pg_sizes new_axes = Inr lab3_sizes_fig"
  "read_draw datasets lsm_read_times pg_read_times new_axes = Inr lab3_read_fig"
  "write_draw datasets lsm_write_times pg_write_times new_axes = Inr lab3_write_fig"
  "ratio_draw algorithms compression_ratios new_axes = Inr lab4_ratio_fig"
  "compress_draw algorithms compress_times new_axes = Inr lab4_compress_fig"
  "decompress_draw algorithms decompress_times new_axes = Inr lab4_decompress_fig"
  by (simp_all only: sizes_draw_lit read_draw_lit write_draw_lit ratio_draw_lit
      compress_draw_lit decompress_draw_lit lab3_sizes_fig_eq lab3_read_fig_eq lab3_write_fig_eq
      lab4_ratio_fig_eq lab4_compress_fig_eq lab4_decompress_fig_eq)

lemma blocks_lit:
  "wr ''docs/images/lab3_sizes.png'' \<Longrightarrow>
     chart_sizes datasets csv_sizes lsm_sizes pg_sizes wr s =
       Inr (s\<lparr>files := (files s)(''docs/images/lab3_sizes.png'' \<mapsto>
                   saved lab3_sizes_fig ''docs/images/lab3_sizes.png''),
              stdout := stdout s @ [saved_msg ''1'' ''docs/images/lab3_sizes.png'']\<rparr>)"
  "wr ''docs/images/lab3_read.png'' \<Longrightarrow>
     chart_read datasets lsm_read_times pg_read_times wr s =
       Inr (s\<lparr>files := (files s)(''docs/images/lab3_read.png'' \<mapsto>
                   saved lab3_read_fig ''docs/images/lab3_read.png''),
              stdout := stdout s @ [saved_msg ''2'' ''docs/images/lab3_read.png'']\<rparr>)"
  "wr ''docs/images/lab3_write.png'' \<Longrightarrow>
     chart_write datasets lsm_write_times pg_write_times wr s =
       Inr (s\<lparr>files := (files s)(''docs/images/lab3_write.png'' \<mapsto>
                   saved lab3_write_fig ''docs/images/lab3_write.png''),
              stdout := stdout s @ [saved_msg ''3'' ''docs/images/lab3_write.png'']\<rparr>)"
  "wr ''docs/images/lab4_compression_ratio.png'' \<Longrightarrow>
     chart_ratio algorithms compression_ratios wr s =
       Inr (s\<lparr>files := (files s)(''docs/images/lab4_compression_ratio.png'' \<mapsto>
                   saved lab4_ratio_fig ''docs/images/lab4_compression_ratio.png''),
              stdout := stdout s @ [saved_msg ''1'' ''docs/images/lab4_compression_ratio.png'']\<rparr>)"
  "wr ''docs/images/lab4_compress_time.png'' \<Longrightarrow>
     chart_compress algorithms compress_times wr s =
       Inr (s\<lparr>files := (files s)(''docs/images/lab4_compress_time.png'' \<mapsto>
                   saved lab4_compress_fig ''docs/images/lab4_compress_time.png''),
              stdout := stdout s @ [saved_msg ''2'' ''docs/images/lab4_compress_time.png'']\<rparr>)"
  "wr ''docs/images/lab4_decompress_time.png'' \<Longrightarrow>
     chart_decompress algorithms decompress_times wr s =
       Inr (s\<lparr>files := (files s)(''docs/images/lab4_decompress_time.png'' \<mapsto>
                   saved lab4_decompress_fig ''docs/images/lab4_decompress_time.png''),
              stdout := stdout s @ [saved_msg ''3'' ''docs/images/lab4_decompress_time.png'']\<rparr>)"
  by (simp_all only: chart_blocks block_ok draws_lit)

lemma generate_charts_ok:
  assumes "list_all wr lab3_paths"
  shows "generate_charts wr s =
     Inr (s\<lparr>files := (files s)
              (''docs/images/lab3_sizes.png'' \<mapsto> saved lab3_sizes_fig ''docs/images/lab3_sizes.png'',
               ''docs/images/lab3_read.png'' \<mapsto> saved lab3_read_fig ''docs/images/lab3_read.png'',
               ''docs/images/lab3_write.png'' \<mapsto> saved lab3_write_fig ''docs/images/lab3_write.png''),
            stdout := stdout s @
              [saved_msg ''1'' ''docs/images/lab3_sizes.png'',
               saved_msg ''2'' ''docs/images/lab3_read.png'',
               saved_msg ''3'' ''docs/images/lab3_write.png'', done_msg]\<rparr>)"
proof -
  from assms have "wr ''docs/images/lab3_sizes.png''" "wr ''docs/images/lab3_read.png''"
    "wr ''docs/images/lab3_write.png''"
    by (simp_all add: lab3_paths_def)
  then show ?thesis
    by (simp add: generate_charts_def blocks_lit and_then_def py_print_def)
qed

lemma generate_compression_charts_ok:
  assumes "list_all wr lab4_paths"
  shows "generate_compression_charts wr s =
     Inr (s\<lparr>files := (files s)
              (''docs/images/lab4_compression_ratio.png'' \<mapsto>
                 saved lab4_ratio_fig ''docs/images/lab4_compression_ratio.png'',
               ''docs/images/lab4_compress_time.png'' \<mapsto>
                 saved lab4_compress_fig ''docs/images/lab4_compress_time.png'',
               ''docs/images/lab4_decompress_time.png'' \<mapsto>
                 saved lab4_decompress_fig ''docs/images/lab4_decompress_time.png''),
            stdout := stdout s @
              [saved_msg ''1'' ''docs/images/lab4_compression_ratio.png'',
               saved_msg ''2'' ''docs/images/lab4_compress_time.png'',
               saved_msg ''3'' ''docs/images/lab4_decompress_time.png'', done_msg]\<rparr>)"
proof -
  from assms have "wr ''docs/images/lab4_compression_ratio.png''"
    "wr ''docs/images/lab4_compress_time.png''" "wr ''docs/images/lab4_decompress_time.png''"
    by (simp_all add: lab4_paths_def)
  then show ?thesis
    by (simp add: generate_compression_charts_def blocks_lit and_then_def py_print_def)
qed

text \<open>A whole run, when the paths of the script can be written.\<close>

lemma run_charts_eq:
  assumes "list_all wr lab3_paths"
  shows "run_charts wr fs =
     \<lparr>files = fs
        (''docs/images/lab3_sizes.png'' \<mapsto> saved lab3_sizes_fig ''docs/images/lab3_sizes.png'',
         ''docs/images/lab3_read.png'' \<mapsto> saved lab3_read_fig ''docs/images/lab3_read.png'',
         ''docs/images/lab3_write.png'' \<mapsto> saved lab3_write_fig ''docs/images/lab3_write.png''),
      stdout =
        [saved_msg ''1'' ''docs/images/lab3_sizes.png'',
         saved_msg ''2'' ''docs/images/lab3_read.png'',
         saved_msg ''3'' ''docs/images/lab3_write.png'', done_msg],
      figs = []\<rparr>"
  by (simp add: run_charts_def generate_charts_ok [OF assms] final_world_def start_def)

lemma run_compression_charts_eq:
  assumes "list_all wr lab4_paths"
  shows "run_compression_charts wr fs =
     \<lparr>files = fs
        (''docs/images/lab4_compression_ratio.png'' \<mapsto>
           saved lab4_ratio_fig ''docs/images/lab4_compression_ratio.png'',
         ''docs/images/lab4_compress_time.png'' \<mapsto>
           saved lab4_compress_fig ''docs/images/lab4_compress_time.png'',
         ''docs/images/lab4_decompress_time.png'' \<mapsto>
           saved lab4_decompress_fig ''docs/images/lab4_decompress_time.png''),
      stdout =
        [saved_msg ''1'' ''docs/images/lab4_compression_ratio.png'',
         saved_msg ''2'' ''docs/images/lab4_compress_time.png'',
         saved_msg ''3'' ''docs/images/lab4_decompress_time.png'', done_msg],
      figs = []\<rparr>"
  by (simp add: run_compression_charts_def generate_compression_charts_ok [OF assms]
      final_world_def start_def)

lemma writable_all_paths:
  "list_all writable_all lab3_paths" "list_all writable_all lab4_paths"
  "list_all writable_all output_paths"
  by (simp_all add: writable_all_def list_all_iff)

lemma output_paths_split:
  "list_all wr output_paths \<longleftrightarrow> list_all wr lab3_paths \<and> list_all wr lab4_paths"
  by (simp add: output_paths_def)

section \<open>The properties\<close>

text \<open>
  C9: in both scripts every literal series is as long as the script's category list (two
  datasets, three algorithms), so every bar call draws one bar per category and every
  pairing of bars with values pairs them all: each container of each figure holds one bar
  per category, and each figure of the compression script carries one label per value.
\<close>

theorem series_match_categories:
  "length datasets = 2 \<and> length algorithms = 3 \<and>
   map length [csv_sizes, lsm_sizes, pg_sizes, lsm_read_times, pg_read_times,
               lsm_write_times, pg_write_times] = replicate 7 (length datasets) \<and>
   map length [compression_ratios, compress_times, decompress_times] =
     replicate 3 (length algorithms) \<and>
   map (\<lambda>c. length (snd c)) (containers lab3_sizes_fig) = replicate 3 (length datasets) \<and>
   map (\<lambda>c. length (snd c)) (containers lab3_read_fig) = replicate 2 (length datasets) \<and>
   map (\<lambda>c. length (snd c)) (containers lab3_write_fig) = replicate 2 (length datasets) \<and>
   map (\<lambda>c. length (snd c)) (containers lab4_ratio_fig) = [length algorithms] \<and>
   map (\<lambda>c. length (snd c)) (containers lab4_compress_fig) = [length algorithms] \<and>
   map (\<lambda>c. length (snd c)) (containers lab4_decompress_fig) = [length algorithms] \<and>
   length (texts lab4_ratio_fig) = length compression_ratios \<and>
   length (texts lab4_compress_fig) = length compress_times \<and>
   length (texts lab4_decompress_fig) = length decompress_times"
  by (simp add: datasets_def algorithms_def series_values numeral_eq_Suc
      lab3_sizes_fig_eq lab3_read_fig_eq lab3_write_fig_eq
      lab4_ratio_fig_eq lab4_compress_fig_eq lab4_decompress_fig_eq)

text \<open>
  C2: the sizes chart. When the script can write its files, the image it leaves at
  \<^verbatim>\<open>docs/images/lab3_sizes.png\<close> shows the two categories \<^verbatim>\<open>trade_data\<close> and
  \<^verbatim>\<open>tweets\<close>, the three series CSV, LSM and PostgreSQL with the values of the scenario as
  bar heights, three bars in the slot of each category (six bars in all), a linear y-axis,
  and on each bar its height to one decimal place: 265.5, 3997.6, 792.5, 6257.7, 1146.2
  and 8987.9.
\<close>

theorem sizes_chart_scenario:
  assumes "list_all wr lab3_paths"
  shows "files (run_charts wr fs) ''docs/images/lab3_sizes.png'' =
           Some (saved lab3_sizes_fig ''docs/images/lab3_sizes.png'') \<and>
         xticklabels lab3_sizes_fig = [''trade_data'', ''tweets''] \<and>
         map fst (containers lab3_sizes_fig) = [''CSV'', ''LSM'', ''PostgreSQL''] \<and>
         map (\<lambda>c. map rect_height (snd c)) (containers lab3_sizes_fig) =
           [[py_float 265.49, py_float 3997.58], [py_float 792.45, py_float 6257.66],
            [py_float 1146.17, py_float 8987.94]] \<and>
         map (\<lambda>k. length (bars_at lab3_sizes_fig k)) (xticks lab3_sizes_fig) = [3, 3] \<and>
         length (all_bars lab3_sizes_fig) = 6 \<and>
         yscale lab3_sizes_fig = Linear \<and>
         label_texts lab3_sizes_fig =
           [''265.5'', ''3997.6'', ''792.5'', ''6257.7'', ''1146.2'', ''8987.9''] \<and>
         label_texts lab3_sizes_fig = map (format_f 1) (heights lab3_sizes_fig)"
proof -
  have saved: "files (run_charts wr fs) ''docs/images/lab3_sizes.png'' =
      Some (saved lab3_sizes_fig ''docs/images/lab3_sizes.png'')"
    by (simp add: run_charts_eq [OF assms])
  have series: "map (\<lambda>c. map rect_height (snd c)) (containers lab3_sizes_fig) =
      [csv_sizes, lsm_sizes, pg_sizes]"
    by (simp add: lab3_sizes_fig_eq series_values)
  have shape: "xticklabels lab3_sizes_fig = [''trade_data'', ''tweets'']"
    "map fst (containers lab3_sizes_fig) = [''CSV'', ''LSM'', ''PostgreSQL'']"
    "yscale lab3_sizes_fig = Linear"
    "length (all_bars lab3_sizes_fig) = 6"
    by (simp_all add: lab3_sizes_fig_eq datasets_def all_bars_def)
  have groups: "map (\<lambda>k. length (bars_at lab3_sizes_fig k)) (xticks lab3_sizes_fig) = [3, 3]"
    by (simp add: lab3_sizes_fig_eq bars_at_def all_bars_def right_edge_def)
  have labels: "label_texts lab3_sizes_fig =
      [''265.5'', ''3997.6'', ''792.5'', ''6257.7'', ''1146.2'', ''8987.9'']"
    "label_texts lab3_sizes_fig = map (format_f 1) (heights lab3_sizes_fig)"
    by (simp_all add: lab3_sizes_fig_eq label_texts_def heights_def all_bars_def
        one_decimal_1 [unfolded One_nat_def])
  from saved series shape groups labels show ?thesis
    unfolding csv_sizes_def lsm_sizes_def pg_sizes_def by simp
qed

theorem sizes_chart_scenario_witness:
  "list_all writable_all lab3_paths \<and>
   files (run_charts writable_all no_files) ''docs/images/lab3_sizes.png'' =
     Some (saved lab3_sizes_fig ''docs/images/lab3_sizes.png'') \<and>
   label_texts lab3_sizes_fig =
     [''265.5'', ''3997.6'', ''792.5'', ''6257.7'', ''1146.2'', ''8987.9'']"
  using sizes_chart_scenario [OF writable_all_paths(1), of no_files]
  by (simp add: writable_all_paths)

lemma run_both_eq:
  assumes "list_all wr output_paths"
  shows "run_both wr fs =
     \<lparr>files = fs
        (''docs/images/lab3_sizes.png'' \<mapsto> saved lab3_sizes_fig ''docs/images/lab3_sizes.png'',
         ''docs/images/lab3_read.png'' \<mapsto> saved lab3_read_fig ''docs/images/lab3_read.png'',
         ''docs/images/lab3_write.png'' \<mapsto> saved lab3_write_fig ''docs/images/lab3_write.png'',
         ''docs/images/lab4_compression_ratio.png'' \<mapsto>
           saved lab4_ratio_fig ''docs/images/lab4_compression_ratio.png'',
         ''docs/images/lab4_compress_time.png'' \<mapsto>
           saved lab4_compress_fig ''docs/images/lab4_compress_time.png'',
         ''docs/images/lab4_decompress_time.png'' \<mapsto>
           saved lab4_decompress_fig ''docs/images/lab4_decompress_time.png''),
      stdout =
        [saved_msg ''1'' ''docs/images/lab4_compression_ratio.png'',
         saved_msg ''2'' ''docs/images/lab4_compress_time.png'',
         saved_msg ''3'' ''docs/images/lab4_decompress_time.png'', done_msg],
      figs = []\<rparr>"
proof -
  from assms have "list_all wr lab3_paths" and "list_all wr lab4_paths"
    by (simp_all add: output_paths_split)
  then show ?thesis
    by (simp add: run_both_def run_charts_eq run_compression_charts_eq)
qed

lemma output_paths_eq:
  "output_paths =
     [''docs/images/lab3_sizes.png'', ''docs/images/lab3_read.png'',
      ''docs/images/lab3_write.png'', ''docs/images/lab4_compression_ratio.png'',
      ''docs/images/lab4_compress_time.png'', ''docs/images/lab4_decompress_time.png'']"
  by (simp add: output_paths_def lab3_paths_def lab4_paths_def)

text \<open>
  C3: when both scripts have run, every image they wrote either has a linear y-axis or
  shows only strictly positive values; the two time charts of the compression script are
  the logarithmic ones. In the compression-time chart the heights are 187.32, 22.67 and
  1.99, and the smallest of them, 1.99, is above zero.
\<close>

theorem log_charts_positive:
  assumes "list_all wr output_paths"
  shows "list_all (\<lambda>p. case files (run_both wr fs) p of
                          None \<Rightarrow> False
                        | Some img \<Rightarrow> yscale (img_axes img) = Linear \<or>
                            list_all (\<lambda>h. 0 < h) (heights (img_axes img))) output_paths \<and>
         map (\<lambda>p. map_option (\<lambda>img. yscale (img_axes img)) (files (run_both wr fs) p))
             output_paths =
           [Some Linear, Some Linear, Some Linear, Some Linear, Some Logarithmic,
            Some Logarithmic] \<and>
         files (run_both wr fs) ''docs/images/lab4_compress_time.png'' =
           Some (saved lab4_compress_fig ''docs/images/lab4_compress_time.png'') \<and>
         heights lab4_compress_fig = [py_float 187.32, py_float 22.67, py_float 1.99] \<and>
         Min (set (heights lab4_compress_fig)) = py_float 1.99 \<and>
         0 < py_float 1.99"
proof -
  have scales: "yscale lab3_sizes_fig = Linear" "yscale lab3_read_fig = Linear"
    "yscale lab3_write_fig = Linear" "yscale lab4_ratio_fig = Linear"
    "yscale lab4_compress_fig = Logarithmic" "yscale lab4_decompress_fig = Logarithmic"
    by (simp_all add: lab3_sizes_fig_eq lab3_read_fig_eq lab3_write_fig_eq
        lab4_ratio_fig_eq lab4_compress_fig_eq lab4_decompress_fig_eq)
  have positive: "list_all (\<lambda>h. 0 < h) (heights lab4_compress_fig)"
    "list_all (\<lambda>h. 0 < h) (heights lab4_decompress_fig)"
    by (simp_all add: lab4_compress_fig_eq lab4_decompress_fig_eq heights_def all_bars_def)
  have hs: "heights lab4_compress_fig = compress_times"
    by (simp add: lab4_compress_fig_eq heights_def all_bars_def series_values)
  have least: "Min (set compress_times) = compress_times ! 2" "0 < compress_times ! 2"
    by (simp_all add: series_values)
  have all: "list_all (\<lambda>p. case files (run_both wr fs) p of
                          None \<Rightarrow> False
                        | Some img \<Rightarrow> yscale (img_axes img) = Linear \<or>
                            list_all (\<lambda>h. 0 < h) (heights (img_axes img))) output_paths"
    by (simp add: run_both_eq [OF assms] output_paths_eq saved_def scales positive)
  have which: "map (\<lambda>p. map_option (\<lambda>img. yscale (img_axes img)) (files (run_both wr fs) p))
             output_paths =
           [Some Linear, Some Linear, Some Linear, Some Linear, Some Logarithmic,
            Some Logarithmic]"
    by (simp add: run_both_eq [OF assms] output_paths_eq saved_def scales)
  have written: "files (run_both wr fs) ''docs/images/lab4_compress_time.png'' =
           Some (saved lab4_compress_fig ''docs/images/lab4_compress_time.png'')"
    by (simp add: run_both_eq [OF assms])
  from least have "Min (set compress_times) = py_float 1.99" "0 < py_float 1.99"
    by (simp_all add: compress_times_def)
  with all which written hs show ?thesis
    by (simp add: compress_times_def)
qed

theorem log_charts_positive_witness:
  "list_all writable_all output_paths \<and>
   files (run_both writable_all no_files) ''docs/images/lab4_compress_time.png'' =
     Some (saved lab4_compress_fig ''docs/images/lab4_compress_time.png'') \<and>
   heights lab4_compress_fig = [py_float 187.32, py_float 22.67, py_float 1.99] \<and>
   Min (set (heights lab4_compress_fig)) = py_float 1.99 \<and> 0 < py_float 1.99"
  using log_charts_positive [OF writable_all_paths(3), of no_files] writable_all_paths(3)
  by blast

text \<open>
  C6: each script, started without arguments in a directory where its three paths can be
  written, runs to its end and exits with status 0. It changes the file system at exactly
  its three paths, one image per chart, and prints one confirmation for each image in turn
  and then the closing message, nothing else.
\<close>

theorem scripts_run_to_completion:
  assumes "list_all wr output_paths"
  shows "exit_status (generate_charts wr (start fs)) = 0 \<and>
         files (run_charts wr fs) = fs
           (''docs/images/lab3_sizes.png'' \<mapsto> saved lab3_sizes_fig ''docs/images/lab3_sizes.png'',
            ''docs/images/lab3_read.png'' \<mapsto> saved lab3_read_fig ''docs/images/lab3_read.png'',
            ''docs/images/lab3_write.png'' \<mapsto> saved lab3_write_fig ''docs/images/lab3_write.png'') \<and>
         stdout (run_charts wr fs) =
           [saved_msg ''1'' ''docs/images/lab3_sizes.png'',
            saved_msg ''2'' ''docs/images/lab3_read.png'',
            saved_msg ''3'' ''docs/images/lab3_write.png'', done_msg] \<and>
         exit_status (generate_compression_charts wr (start fs)) = 0 \<and>
         files (run_compression_charts wr fs) = fs
           (''docs/images/lab4_compression_ratio.png'' \<mapsto>
              saved lab4_ratio_fig ''docs/images/lab4_compression_ratio.png'',
            ''docs/images/lab4_compress_time.png'' \<mapsto>
              saved lab4_compress_fig ''docs/images/lab4_compress_time.png'',
            ''docs/images/lab4_decompress_time.png'' \<mapsto>
              saved lab4_decompress_fig ''docs/images/lab4_decompress_time.png'') \<and>
         stdout (run_compression_charts wr fs) =
           [saved_msg ''1'' ''docs/images/lab4_compression_ratio.png'',
            saved_msg ''2'' ''docs/images/lab4_compress_time.png'',
            saved_msg ''3'' ''docs/images/lab4_decompress_time.png'', done_msg] \<and>
         distinct lab3_paths \<and> distinct lab4_paths"
proof -
  from assms have w: "list_all wr lab3_paths" "list_all wr lab4_paths"
    by (simp_all add: output_paths_split)
  have "exit_status (generate_charts wr (start fs)) = 0"
    "exit_status (generate_compression_charts wr (start fs)) = 0"
    by (simp_all add: generate_charts_ok [OF w(1)] generate_compression_charts_ok [OF w(2)]
        exit_status_def)
  moreover have "distinct lab3_paths" "distinct lab4_paths"
    by (simp_all add: lab3_paths_def lab4_paths_def)
  ultimately show ?thesis
    by (simp add: run_charts_eq [OF w(1)] run_compression_charts_eq [OF w(2)])
qed

theorem scripts_run_to_completion_witness:
  "list_all writable_all output_paths \<and>
   exit_status (generate_charts writable_all (start no_files)) = 0 \<and>
   stdout (run_charts writable_all no_files) =
     [saved_msg ''1'' ''docs/images/lab3_sizes.png'',
      saved_msg ''2'' ''docs/images/lab3_read.png'',
      saved_msg ''3'' ''docs/images/lab3_write.png'', done_msg] \<and>
   exit_status (generate_compression_charts writable_all (start no_files)) = 0 \<and>
   stdout (run_compression_charts writable_all no_files) =
     [saved_msg ''1'' ''docs/images/lab4_compression_ratio.png'',
      saved_msg ''2'' ''docs/images/lab4_compress_time.png'',
      saved_msg ''3'' ''docs/images/lab4_decompress_time.png'', done_msg]"
  using scripts_run_to_completion [OF writable_all_paths(3), of no_files] writable_all_paths(3)
  by blast

text \<open>
  C7: where the paths can be written, every chart ends up at its path as a PNG image of
  300 DPI cropped tightly to the figure, and each of the six blocks returns with the
  figure it opened closed again, so that no figure is open when a script ends.
\<close>

theorem exports_png_and_closes:
  assumes "list_all wr output_paths"
  shows "list_all (\<lambda>p. case files (run_both wr fs) p of
                          None \<Rightarrow> False
                        | Some img \<Rightarrow> img_format img = ''png'' \<and> img_dpi img = 300 \<and>
                            img_tight img) output_paths \<and>
         figs (run_charts wr fs) = [] \<and>
         figs (run_compression_charts wr fs) = [] \<and>
         figs (final_world (chart_sizes datasets csv_sizes lsm_sizes pg_sizes wr s)) = figs s \<and>
         figs (final_world (chart_read datasets lsm_read_times pg_read_times wr s)) = figs s \<and>
         figs (final_world (chart_write datasets lsm_write_times pg_write_times wr s)) = figs s \<and>
         figs (final_world (chart_ratio algorithms compression_ratios wr s)) = figs s \<and>
         figs (final_world (chart_compress algorithms compress_times wr s)) = figs s \<and>
         figs (final_world (chart_decompress algorithms decompress_times wr s)) = figs s"
proof -
  from assms have w: "list_all wr lab3_paths" "list_all wr lab4_paths"
    by (simp_all add: output_paths_split)
  from assms have p: "wr ''docs/images/lab3_sizes.png''" "wr ''docs/images/lab3_read.png''"
    "wr ''docs/images/lab3_write.png''" "wr ''docs/images/lab4_compression_ratio.png''"
    "wr ''docs/images/lab4_compress_time.png''" "wr ''docs/images/lab4_decompress_time.png''"
    by (simp_all add: output_paths_eq)
  have "list_all (\<lambda>p. case files (run_both wr fs) p of
                          None \<Rightarrow> False
                        | Some img \<Rightarrow> img_format img = ''png'' \<and> img_dpi img = 300 \<and>
                            img_tight img) output_paths"
    by (simp add: run_both_eq [OF assms] output_paths_eq saved_def format_of_paths)
  moreover have "figs (run_charts wr fs) = []" "figs (run_compression_charts wr fs) = []"
    by (simp_all add: run_charts_eq [OF w(1)] run_compression_charts_eq [OF w(2)])
  ultimately show ?thesis
    by (simp add: blocks_lit p final_world_def)
qed

theorem exports_png_and_closes_witness:
  "list_all writable_all output_paths \<and>
   list_all (\<lambda>p. case files (run_both writable_all no_files) p of
                    None \<Rightarrow> False
                  | Some img \<Rightarrow> img_format img = ''png'' \<and> img_dpi img = 300 \<and>
                      img_tight img) output_paths \<and>
   figs (run_charts writable_all no_files) = [] \<and>
   figs (run_compression_charts writable_all no_files) = [] \<and>
   figs (final_world (chart_sizes datasets csv_sizes lsm_sizes pg_sizes writable_all
     (start no_files))) = figs (start no_files)"
  using exports_png_and_closes [OF writable_all_paths(3), of no_files "start no_files"]
    writable_all_paths(3)
  by blast

text \<open>What a block does at its path does not depend on the world it starts in.\<close>

lemma block_outcome:
  "outcome path (block f path m wr s) = outcome path (block f path m wr t)"
proof (cases "f new_axes")
  case (Inl e)
  then show ?thesis
    by (simp add: block_draw_fails outcome_def)
next
  case (Inr a)
  then show ?thesis
    by (cases "wr path") (simp_all add: block_ok block_save_fails outcome_def)
qed

text \<open>
  C8: rendering is a function of its input data. Whatever the data, each of the six
  blocks ends the same way from any two worlds: with the same exception, or with the same
  image at its path. For the scripts themselves, where their paths can be written: two
  runs from different file systems print the same lines and leave the same images at the
  output paths, and a second run after the first leaves the file system as the first
  left it.
\<close>

theorem rendering_is_repeatable:
  assumes "list_all wr output_paths"
  shows "outcome ''docs/images/lab3_sizes.png'' (chart_sizes ds csv lsm pg wr' s) =
           outcome ''docs/images/lab3_sizes.png'' (chart_sizes ds csv lsm pg wr' t) \<and>
         outcome ''docs/images/lab3_read.png'' (chart_read ds lsm pg wr' s) =
           outcome ''docs/images/lab3_read.png'' (chart_read ds lsm pg wr' t) \<and>
         outcome ''docs/images/lab3_write.png'' (chart_write ds lsm pg wr' s) =
           outcome ''docs/images/lab3_write.png'' (chart_write ds lsm pg wr' t) \<and>
         outcome ''docs/images/lab4_compression_ratio.png'' (chart_ratio algs vs wr' s) =
           outcome ''docs/images/lab4_compression_ratio.png'' (chart_ratio algs vs wr' t) \<and>
         outcome ''docs/images/lab4_compress_time.png'' (chart_compress algs vs wr' s) =
           outcome ''docs/images/lab4_compress_time.png'' (chart_compress algs vs wr' t) \<and>
         outcome ''docs/images/lab4_decompress_time.png'' (chart_decompress algs vs wr' s) =
           outcome ''docs/images/lab4_decompress_time.png'' (chart_decompress algs vs wr' t) \<and>
         map (files (run_charts wr fs)) lab3_paths = map (files (run_charts wr fs')) lab3_paths \<and>
         stdout (run_charts wr fs) = stdout (run_charts wr fs') \<and>
         files (run_charts wr (files (run_charts wr fs))) = files (run_charts wr fs) \<and>
         map (files (run_compression_charts wr fs)) lab4_paths =
           map (files (run_compression_charts wr fs')) lab4_paths \<and>
         stdout (run_compression_charts wr fs) = stdout (run_compression_charts wr fs') \<and>
         files (run_compression_charts wr (files (run_compression_charts wr fs))) =
           files (run_compression_charts wr fs)"
proof -
  from assms have w: "list_all wr lab3_paths" "list_all wr lab4_paths"
    by (simp_all add: output_paths_split)
  have "map (files (run_charts wr fs)) lab3_paths = map (files (run_charts wr fs')) lab3_paths"
    "stdout (run_charts wr fs) = stdout (run_charts wr fs')"
    "files (run_charts wr (files (run_charts wr fs))) = files (run_charts wr fs)"
    by (simp_all add: run_charts_eq [OF w(1)] lab3_paths_def)
  moreover have "map (files (run_compression_charts wr fs)) lab4_paths =
      map (files (run_compression_charts wr fs')) lab4_paths"
    "stdout (run_compression_charts wr fs) = stdout (run_compression_charts wr fs')"
    "files (run_compression_charts wr (files (run_compression_charts wr fs))) =
      files (run_compression_charts wr fs)"
    by (simp_all add: run_compression_charts_eq [OF w(2)] lab4_paths_def)
  ultimately show ?thesis
    by (simp only: chart_blocks block_outcome [of _ _ _ _ s t] simp_thms)
qed

theorem rendering_is_repeatable_witness:
  "list_all writable_all output_paths \<and>
   outcome ''docs/images/lab3_sizes.png''
     (chart_sizes datasets csv_sizes lsm_sizes pg_sizes writable_all (start no_files)) =
   outcome ''docs/images/lab3_sizes.png''
     (chart_sizes datasets csv_sizes lsm_sizes pg_sizes writable_all
        (run_charts writable_all no_files)) \<and>
   files (run_charts writable_all (files (run_charts writable_all no_files))) =
     files (run_charts writable_all no_files) \<and>
   files (run_compression_charts writable_all
            (files (run_compression_charts writable_all no_files))) =
     files (run_compression_charts writable_all no_files)"
  using rendering_is_repeatable [OF writable_all_paths(3),
      of datasets csv_sizes lsm_sizes pg_sizes writable_all "start no_files"
         "run_charts writable_all no_files" _ _ no_files]
    writable_all_paths(3)
  by blast

text \<open>
  C10: the six output paths are pairwise distinct; a \<^verbatim>\<open>savefig\<close> call leaves every
  file but the one at its own path as it was; so when both scripts have run, each of the
  six paths holds the chart of its own block, and no other file has changed.
\<close>

theorem outputs_do_not_collide:
  assumes "list_all wr output_paths" and "q \<noteq> path" and "p \<notin> set output_paths"
  shows "distinct output_paths \<and> length output_paths = 6 \<and>
         files (final_world (plt_savefig wr' path d tight s)) q = files s q \<and>
         map (files (run_both wr fs)) output_paths =
           [Some (saved lab3_sizes_fig ''docs/images/lab3_sizes.png''),
            Some (saved lab3_read_fig ''docs/images/lab3_read.png''),
            Some (saved lab3_write_fig ''docs/images/lab3_write.png''),
            Some (saved lab4_ratio_fig ''docs/images/lab4_compression_ratio.png''),
            Some (saved lab4_compress_fig ''docs/images/lab4_compress_time.png''),
            Some (saved lab4_decompress_fig ''docs/images/lab4_decompress_time.png'')] \<and>
         files (run_both wr fs) p = fs p"
proof -
  have "distinct output_paths" "length output_paths = 6"
    by (simp_all add: output_paths_eq)
  moreover from assms(2) have "files (final_world (plt_savefig wr' path d tight s)) q = files s q"
    by (simp add: plt_savefig_def plt_gcf_def final_world_def)
  moreover have "map (files (run_both wr fs)) output_paths =
           [Some (saved lab3_sizes_fig ''docs/images/lab3_sizes.png''),
            Some (saved lab3_read_fig ''docs/images/lab3_read.png''),
            Some (saved lab3_write_fig ''docs/images/lab3_write.png''),
            Some (saved lab4_ratio_fig ''docs/images/lab4_compression_ratio.png''),
            Some (saved lab4_compress_fig ''docs/images/lab4_compress_time.png''),
            Some (saved lab4_decompress_fig ''docs/images/lab4_decompress_time.png'')]"
    by (simp add: run_both_eq [OF assms(1)] output_paths_eq)
  moreover from assms(3) have "files (run_both wr fs) p = fs p"
    by (simp add: run_both_eq [OF assms(1)] output_paths_eq)
  ultimately show ?thesis
    by simp
qed

theorem outputs_do_not_collide_witness:
  "list_all writable_all output_paths \<and>
   ''docs/images/lab3_read.png'' \<noteq> ''docs/images/lab3_sizes.png'' \<and>
   ''docs/report.md'' \<notin> set output_paths \<and>
   distinct output_paths \<and>
   files (final_world (plt_savefig writable_all ''docs/images/lab3_sizes.png'' 300 True
            (run_charts writable_all no_files))) ''docs/images/lab3_read.png'' =
     files (run_charts writable_all no_files) ''docs/images/lab3_read.png'' \<and>
   files (run_both writable_all no_files) ''docs/images/lab3_sizes.png'' =
     Some (saved lab3_sizes_fig ''docs/images/lab3_sizes.png'') \<and>
   files (run_both writable_all no_files) ''docs/report.md'' = no_files ''docs/report.md''"
proof -
  have a: "''docs/images/lab3_read.png'' \<noteq> ''docs/images/lab3_sizes.png''"
    by simp
  have b: "''docs/report.md'' \<notin> set output_paths"
    by (simp add: output_paths_eq)
  from outputs_do_not_collide [OF writable_all_paths(3) a b,
      of writable_all 300 True "run_charts writable_all no_files" no_files]
    writable_all_paths(3) a b
  show ?thesis
    by (simp add: output_paths_eq)
qed

text \<open>
  C4, as the scripts have it: in each of the six figures the slot of every category holds
  as many bars as the figure has series, the bar heights are the input values, and the
  label on each bar is its value in fixed-point notation, to one decimal place in the
  sizes chart and to two in the others, followed by the suffix of the chart: none in the
  three charts of the first script, the multiplication sign in the ratio chart, a blank
  and the Cyrillic letter for seconds in the two time charts. To two decimal places the
  value 5.67 reads 5.67.
\<close>

theorem labels_show_values:
  "map (\<lambda>k. length (bars_at lab3_sizes_fig k)) (xticks lab3_sizes_fig) =
     replicate (length datasets) (length (containers lab3_sizes_fig)) \<and>
   map (\<lambda>k. length (bars_at lab3_read_fig k)) (xticks lab3_read_fig) =
     replicate (length datasets) (length (containers lab3_read_fig)) \<and>
   map (\<lambda>k. length (bars_at lab3_write_fig k)) (xticks lab3_write_fig) =
     replicate (length datasets) (length (containers lab3_write_fig)) \<and>
   map (\<lambda>k. length (bars_at lab4_ratio_fig k)) (xticks lab4_ratio_fig) =
     replicate (length algorithms) (length (containers lab4_ratio_fig)) \<and>
   map (\<lambda>k. length (bars_at lab4_compress_fig k)) (xticks lab4_compress_fig) =
     replicate (length algorithms) (length (containers lab4_compress_fig)) \<and>
   map (\<lambda>k. length (bars_at lab4_decompress_fig k)) (xticks lab4_decompress_fig) =
     replicate (length algorithms) (length (containers lab4_decompress_fig)) \<and>
   map (\<lambda>a. length (containers a))
     [lab3_sizes_fig, lab3_read_fig, lab3_write_fig, lab4_ratio_fig, lab4_compress_fig,
      lab4_decompress_fig] = [3, 2, 2, 1, 1, 1] \<and>
   heights lab3_sizes_fig = csv_sizes @ lsm_sizes @ pg_sizes \<and>
   heights lab3_read_fig = lsm_read_times @ pg_read_times \<and>
   heights lab3_write_fig = lsm_write_times @ pg_write_times \<and>
   heights lab4_ratio_fig = compression_ratios \<and>
   heights lab4_compress_fig = compress_times \<and>
   heights lab4_decompress_fig = decompress_times \<and>
   label_texts lab3_sizes_fig = map (format_f 1) (heights lab3_sizes_fig) \<and>
   label_texts lab3_read_fig = map (format_f 2) (heights lab3_read_fig) \<and>
   label_texts lab3_write_fig = map (format_f 2) (heights lab3_write_fig) \<and>
   label_texts lab4_ratio_fig = map (\<lambda>v. format_f 2 v @ times_sign) (heights lab4_ratio_fig) \<and>
   label_texts lab4_compress_fig =
     map (\<lambda>v. format_f 2 v @ seconds_suffix) (heights lab4_compress_fig) \<and>
   label_texts lab4_decompress_fig =
     map (\<lambda>v. format_f 2 v @ seconds_suffix) (heights lab4_decompress_fig) \<and>
   format_f 2 (py_float 5.67) = ''5.67''"
proof -
  have groups:
    "map (\<lambda>k. length (bars_at lab3_sizes_fig k)) (xticks lab3_sizes_fig) =
       replicate (length datasets) (length (containers lab3_sizes_fig))"
    "map (\<lambda>k. length (bars_at lab3_read_fig k)) (xticks lab3_read_fig) =
       replicate (length datasets) (length (containers lab3_read_fig))"
    "map (\<lambda>k. length (bars_at lab3_write_fig k)) (xticks lab3_write_fig) =
       replicate (length datasets) (length (containers lab3_write_fig))"
    by (simp_all add: lab3_sizes_fig_eq lab3_read_fig_eq lab3_write_fig_eq datasets_def
        bars_at_def all_bars_def right_edge_def numeral_eq_Suc)
  have singles:
    "map (\<lambda>k. length (bars_at lab4_ratio_fig k)) (xticks lab4_ratio_fig) =
       replicate (length algorithms) (length (containers lab4_ratio_fig))"
    "map (\<lambda>k. length (bars_at lab4_compress_fig k)) (xticks lab4_compress_fig) =
       replicate (length algorithms) (length (containers lab4_compress_fig))"
    "map (\<lambda>k. length (bars_at lab4_decompress_fig k)) (xticks lab4_decompress_fig) =
       replicate (length algorithms) (length (containers lab4_decompress_fig))"
    by (simp_all add: lab4_ratio_fig_eq lab4_compress_fig_eq lab4_decompress_fig_eq
        algorithms_def bars_at_def all_bars_def right_edge_def numeral_eq_Suc)
  have series: "map (\<lambda>a. length (containers a))
     [lab3_sizes_fig, lab3_read_fig, lab3_write_fig, lab4_ratio_fig, lab4_compress_fig,
      lab4_decompress_fig] = [3, 2, 2, 1, 1, 1]"
    by (simp add: lab3_sizes_fig_eq lab3_read_fig_eq lab3_write_fig_eq
        lab4_ratio_fig_eq lab4_compress_fig_eq lab4_decompress_fig_eq)
  have hs: "heights lab3_sizes_fig = csv_sizes @ lsm_sizes @ pg_sizes"
    "heights lab3_read_fig = lsm_read_times @ pg_read_times"
    "heights lab3_write_fig = lsm_write_times @ pg_write_times"
    "heights lab4_ratio_fig = compression_ratios"
    "heights lab4_compress_fig = compress_times"
    "heights lab4_decompress_fig = decompress_times"
    by (simp_all add: lab3_sizes_fig_eq lab3_read_fig_eq lab3_write_fig_eq
        lab4_ratio_fig_eq lab4_compress_fig_eq lab4_decompress_fig_eq
        heights_def all_bars_def series_values)
  have ls: "label_texts lab3_sizes_fig = map (format_f 1) (heights lab3_sizes_fig)"
    "label_texts lab3_read_fig = map (format_f 2) (heights lab3_read_fig)"
    "label_texts lab3_write_fig = map (format_f 2) (heights lab3_write_fig)"
    "label_texts lab4_ratio_fig = map (\<lambda>v. format_f 2 v @ times_sign) (heights lab4_ratio_fig)"
    "label_texts lab4_compress_fig =
       map (\<lambda>v. format_f 2 v @ seconds_suffix) (heights lab4_compress_fig)"
    "label_texts lab4_decompress_fig =
       map (\<lambda>v. format_f 2 v @ seconds_suffix) (heights lab4_decompress_fig)"
    by (simp_all add: lab3_sizes_fig_eq lab3_read_fig_eq lab3_write_fig_eq
        lab4_ratio_fig_eq lab4_compress_fig_eq lab4_decompress_fig_eq
        label_texts_def heights_def all_bars_def
        one_decimal_1 [unfolded One_nat_def] two_decimals_1 two_decimals_2 two_decimals_3)
  have "format_f 2 (compression_ratios ! 1) = ''5.67''"
    by (simp add: series_values two_decimals_2 two_decimals_3)
  then have "format_f 2 (py_float 5.67) = ''5.67''"
    by (simp add: compression_ratios_def)
  with groups singles series hs ls show ?thesis
    by (simp only: simp_thms)
qed

text \<open>
  C4 as stated fails on the ratio chart: the value 5.67 formatted to two decimal places
  is 5.67, but the label on its bar carries the multiplication sign after it.
\<close>

theorem label_text_counterexample:
  "files (run_compression_charts writable_all no_files)
     ''docs/images/lab4_compression_ratio.png'' =
     Some (saved lab4_ratio_fig ''docs/images/lab4_compression_ratio.png'') \<and>
   heights lab4_ratio_fig ! 1 = py_float 5.67 \<and>
   format_f 2 (py_float 5.67) = ''5.67'' \<and>
   label_texts lab4_ratio_fig ! 1 = ''5.67'' @ times_sign \<and>
   label_texts lab4_ratio_fig ! 1 \<noteq> format_f 2 (heights lab4_ratio_fig ! 1)"
proof -
  have "files (run_compression_charts writable_all no_files)
     ''docs/images/lab4_compression_ratio.png'' =
     Some (saved lab4_ratio_fig ''docs/images/lab4_compression_ratio.png'')"
    by (simp add: run_compression_charts_eq [OF writable_all_paths(2)])
  moreover have "heights lab4_ratio_fig ! 1 = compression_ratios ! 1"
    by (simp add: lab4_ratio_fig_eq heights_def all_bars_def series_values)
  moreover have "format_f 2 (compression_ratios ! 1) = ''5.67''"
    by (simp add: series_values two_decimals_2 two_decimals_3)
  moreover have "label_texts lab4_ratio_fig ! 1 = ''5.67'' @ times_sign"
    by (simp add: lab4_ratio_fig_eq label_texts_def)
  moreover have "''5.67'' @ times_sign \<noteq> ''5.67''"
    by (simp add: times_sign_def)
  ultimately show ?thesis
    by (simp add: compression_ratios_def)
qed


section \<open>Series that do not fit the categories\<close>

text \<open>
  The scripts check nothing themselves: what happens to a series of the wrong length is
  what the bar call does with it.
\<close>

lemma bar_rects_incompatible:
  "incompatible (length x) (length h) \<Longrightarrow> bar_rects x h w = Inl ValueError"
  by (simp add: bar_rects_def broadcast_def incompatible_def)

lemma bar_rects_compatible:
  "\<not> incompatible (length x) (length h) \<Longrightarrow> \<exists>bars. bar_rects x h w = Inr bars"
  by (auto simp add: bar_rects_def broadcast_def incompatible_def)

lemma ax_bar_incompatible:
  "incompatible (length x) (length h) \<Longrightarrow> ax_bar x h w l ax = Inl ValueError"
  by (simp add: ax_bar_def add_bars_def bar_rects_incompatible)

lemma ax_bar_compatible:
  assumes "\<not> incompatible n (length h)" and "length x = n"
  shows "\<exists>bars ax'. ax_bar x h w l ax = Inr (bars, ax')"
  using assms bar_rects_compatible [of x h "convert_dx w x"]
  by (auto simp add: ax_bar_def add_bars_def)

lemma sizes_draw_mismatch:
  assumes "incompatible (length ds) (length csv) \<or> incompatible (length ds) (length lsm) \<or>
           incompatible (length ds) (length pg)"
  shows "sizes_draw ds csv lsm pg ax = Inl ValueError"
proof -
  let ?x = "arange (length ds)"
  let ?w = "py_float 0.25"
  have len: "length ?x = length ds" "length (map (\<lambda>xi. fsub xi ?w) ?x) = length ds"
    "length (map (\<lambda>xi. fadd xi ?w) ?x) = length ds"
    by (simp_all add: arange_def)
  show ?thesis
  proof (cases "incompatible (length ds) (length csv)")
    case True
    then show ?thesis
      by (simp add: sizes_draw_def Let_def ax_bar_incompatible len)
  next
    case csv: False
    from ax_bar_compatible [OF csv len(2), of ?w "''CSV''" ax] obtain bars1 ax1 where
      b1: "ax_bar (map (\<lambda>xi. fsub xi ?w) ?x) csv ?w ''CSV'' ax = Inr (bars1, ax1)"
      by blast
    show ?thesis
    proof (cases "incompatible (length ds) (length lsm)")
      case True
      then show ?thesis
        using b1 by (simp add: sizes_draw_def Let_def ax_bar_incompatible len)
    next
      case lsm: False
      from ax_bar_compatible [OF lsm len(1), of ?w "''LSM''" ax1] obtain bars2 ax2 where
        b2: "ax_bar ?x lsm ?w ''LSM'' ax1 = Inr (bars2, ax2)"
        by blast
      from assms csv lsm have "incompatible (length ds) (length pg)"
        by simp
      then show ?thesis
        using b1 b2 by (simp add: sizes_draw_def Let_def ax_bar_incompatible len)
    qed
  qed
qed

lemma sizes_draw_compatible:
  assumes "\<not> incompatible (length ds) (length csv)" and "\<not> incompatible (length ds) (length lsm)"
    and "\<not> incompatible (length ds) (length pg)"
  shows "\<exists>a. sizes_draw ds csv lsm pg ax = Inr a"
proof -
  let ?x = "arange (length ds)"
  let ?w = "py_float 0.25"
  have len: "length ?x = length ds" "length (map (\<lambda>xi. fsub xi ?w) ?x) = length ds"
    "length (map (\<lambda>xi. fadd xi ?w) ?x) = length ds"
    by (simp_all add: arange_def)
  from ax_bar_compatible [OF assms(1) len(2), of ?w "''CSV''" ax] obtain bars1 ax1 where
    b1: "ax_bar (map (\<lambda>xi. fsub xi ?w) ?x) csv ?w ''CSV'' ax = Inr (bars1, ax1)"
    by blast
  from ax_bar_compatible [OF assms(2) len(1), of ?w "''LSM''" ax1] obtain bars2 ax2 where
    b2: "ax_bar ?x lsm ?w ''LSM'' ax1 = Inr (bars2, ax2)"
    by blast
  from ax_bar_compatible [OF assms(3) len(3), of ?w "''PostgreSQL''" ax2] obtain bars3 ax3 where
    b3: "ax_bar (map (\<lambda>xi. fadd xi ?w) ?x) pg ?w ''PostgreSQL'' ax2 = Inr (bars3, ax3)"
    by blast
  from b1 b2 b3 show ?thesis
    by (simp add: sizes_draw_def Let_def)
qed

lemma ratio_draw_mismatch:
  "incompatible (length algs) (length vs) \<Longrightarrow> ratio_draw algs vs ax = Inl ValueError"
  by (simp add: ratio_draw_def ax_bar_cat_def Let_def add_bars_def bar_rects_incompatible)

lemma ratio_draw_compatible:
  assumes "\<not> incompatible (length algs) (length vs)"
  shows "\<exists>a. ratio_draw algs vs ax = Inr a"
proof -
  from assms obtain bars where
    "bar_rects (map (category_position (category_units algs)) algs) vs (py_float 0.8) = Inr bars"
    using bar_rects_compatible
      [of "map (category_position (category_units algs)) algs" vs "py_float 0.8"]
    by auto
  then obtain ax' where "ax_bar_cat algs vs ax = Inr (bars, ax')"
    by (simp add: ax_bar_cat_def Let_def add_bars_def)
  then show ?thesis
    by (simp add: ratio_draw_def)
qed

text \<open>How a block ends, by how its drawing ends and whether its path can be written.\<close>

lemma block_raised:
  "f new_axes = Inl e \<Longrightarrow> raised (block f path m wr s) = Some e"
  "f new_axes = Inr a \<Longrightarrow> \<not> wr path \<Longrightarrow> raised (block f path m wr s) = Some OSError"
  "f new_axes = Inr a \<Longrightarrow> wr path \<Longrightarrow> raised (block f path m wr s) = None"
  by (simp_all add: block_draw_fails block_save_fails block_ok raised_def)

lemma block_raised_keeps_files:
  assumes "raised (block f path m wr s) \<noteq> None"
  shows "files (final_world (block f path m wr s)) = files s"
    and "stdout (final_world (block f path m wr s)) = stdout s"
proof -
  have "files (final_world (block f path m wr s)) = files s \<and>
        stdout (final_world (block f path m wr s)) = stdout s"
  proof (cases "f new_axes")
    case (Inl e)
    then show ?thesis
      by (simp add: block_draw_fails final_world_def)
  next
    case (Inr a)
    with assms have "\<not> wr path"
      by (auto simp add: block_raised)
    with Inr show ?thesis
      by (simp add: block_save_fails final_world_def)
  qed
  then show "files (final_world (block f path m wr s)) = files s"
    and "stdout (final_world (block f path m wr s)) = stdout s"
    by simp_all
qed

text \<open>
  C1, as the scripts have it, for the first block of either script and arbitrary data. A
  series whose length differs from the number of categories, neither of the two being 1,
  makes the bar call raise \<^verbatim>\<open>ValueError\<close>. When every series can be broadcast against
  the categories and the path cannot be written, the block ends with \<^verbatim>\<open>OSError\<close>; when
  the path can be written it ends without an exception. A block that ends with an
  exception has changed no file and printed nothing.
\<close>

theorem failing_blocks:
  "(incompatible (length ds) (length csv) \<or> incompatible (length ds) (length lsm) \<or>
      incompatible (length ds) (length pg) \<longrightarrow>
      raised (chart_sizes ds csv lsm pg wr s) = Some ValueError) \<and>
   (\<not> incompatible (length ds) (length csv) \<and> \<not> incompatible (length ds) (length lsm) \<and>
      \<not> incompatible (length ds) (length pg) \<longrightarrow>
      raised (chart_sizes ds csv lsm pg wr s) =
        (if wr ''docs/images/lab3_sizes.png'' then None else Some OSError)) \<and>
   (raised (chart_sizes ds csv lsm pg wr s) \<noteq> None \<longrightarrow>
      files (final_world (chart_sizes ds csv lsm pg wr s)) = files s \<and>
      stdout (final_world (chart_sizes ds csv lsm pg wr s)) = stdout s) \<and>
   (incompatible (length algs) (length vs) \<longrightarrow>
      raised (chart_ratio algs vs wr s) = Some ValueError) \<and>
   (\<not> incompatible (length algs) (length vs) \<longrightarrow>
      raised (chart_ratio algs vs wr s) =
        (if wr ''docs/images/lab4_compression_ratio.png'' then None else Some OSError)) \<and>
   (raised (chart_ratio algs vs wr s) \<noteq> None \<longrightarrow>
      files (final_world (chart_ratio algs vs wr s)) = files s \<and>
      stdout (final_world (chart_ratio algs vs wr s)) = stdout s)"
proof -
  have "raised (chart_sizes ds csv lsm pg wr s) = Some ValueError"
    if "incompatible (length ds) (length csv) \<or> incompatible (length ds) (length lsm) \<or>
        incompatible (length ds) (length pg)"
    using sizes_draw_mismatch [OF that] by (simp add: chart_blocks block_raised)
  moreover have "raised (chart_sizes ds csv lsm pg wr s) =
      (if wr ''docs/images/lab3_sizes.png'' then None else Some OSError)"
    if "\<not> incompatible (length ds) (length csv)" "\<not> incompatible (length ds) (length lsm)"
      "\<not> incompatible (length ds) (length pg)"
    using sizes_draw_compatible [OF that, of new_axes]
    by (auto simp add: chart_blocks block_raised)
  moreover have "raised (chart_ratio algs vs wr s) = Some ValueError"
    if "incompatible (length algs) (length vs)"
    using ratio_draw_mismatch [OF that] by (simp add: chart_blocks block_raised)
  moreover have "raised (chart_ratio algs vs wr s) =
      (if wr ''docs/images/lab4_compression_ratio.png'' then None else Some OSError)"
    if "\<not> incompatible (length algs) (length vs)"
    using ratio_draw_compatible [OF that, of new_axes]
    by (auto simp add: chart_blocks block_raised)
  ultimately show ?thesis
    by (simp add: chart_blocks block_raised_keeps_files)
qed

theorem failing_blocks_witness:
  "incompatible (length datasets) (length ([] :: float64 list)) \<and>
   raised (chart_sizes datasets [] lsm_sizes pg_sizes writable_all (start no_files)) =
     Some ValueError \<and>
   files (final_world (chart_sizes datasets [] lsm_sizes pg_sizes writable_all
     (start no_files))) = no_files \<and>
   incompatible (length algorithms) (length (take 2 compression_ratios)) \<and>
   raised (chart_ratio algorithms (take 2 compression_ratios) writable_all (start no_files)) =
     Some ValueError \<and>
   \<not> incompatible (length datasets) (length csv_sizes) \<and>
   \<not> incompatible (length datasets) (length lsm_sizes) \<and>
   \<not> incompatible (length datasets) (length pg_sizes) \<and>
   raised (chart_sizes datasets csv_sizes lsm_sizes pg_sizes writable_none (start no_files)) =
     Some OSError \<and>
   files (final_world (chart_sizes datasets csv_sizes lsm_sizes pg_sizes writable_none
     (start no_files))) = no_files \<and>
   \<not> incompatible (length algorithms) (length compression_ratios) \<and>
   raised (chart_ratio algorithms compression_ratios writable_none (start no_files)) =
     Some OSError"
proof -
  have bad: "incompatible (length datasets) (length ([] :: float64 list))"
    "incompatible (length algorithms) (length (take 2 compression_ratios))"
    by (simp_all add: incompatible_def datasets_def algorithms_def series_values)
  have good: "\<not> incompatible (length datasets) (length csv_sizes)"
    "\<not> incompatible (length datasets) (length lsm_sizes)"
    "\<not> incompatible (length datasets) (length pg_sizes)"
    "\<not> incompatible (length algorithms) (length compression_ratios)"
    by (simp_all add: incompatible_def datasets_def algorithms_def series_values)
  from bad good
    failing_blocks [of datasets "[]" lsm_sizes pg_sizes writable_all "start no_files"
      algorithms "take 2 compression_ratios"]
    failing_blocks [of datasets csv_sizes lsm_sizes pg_sizes writable_none "start no_files"
      algorithms compression_ratios]
  show ?thesis
    by (simp add: writable_none_def start_def)
qed

text \<open>
  C1 as stated fails where a series has length one: with two datasets and the CSV series
  cut down to its first value the lengths differ, yet the block raises nothing; the
  single value is repeated for both categories and the chart is saved.
\<close>

theorem length_one_series_counterexample:
  "length (take 1 csv_sizes) \<noteq> length datasets \<and>
   raised (chart_sizes datasets (take 1 csv_sizes) lsm_sizes pg_sizes writable_all
     (start no_files)) = None \<and>
   map_option (\<lambda>img. heights (img_axes img))
     (files (final_world (chart_sizes datasets (take 1 csv_sizes) lsm_sizes pg_sizes
        writable_all (start no_files))) ''docs/images/lab3_sizes.png'') =
     Some (replicate 2 (hd csv_sizes) @ lsm_sizes @ pg_sizes)"
proof -
  have len: "length (take 1 csv_sizes) \<noteq> length datasets"
    by (simp add: series_values datasets_def)
  have "\<exists>a. sizes_draw datasets (take 1 csv_sizes) lsm_sizes pg_sizes new_axes = Inr a \<and>
      heights a = replicate 2 (hd csv_sizes) @ lsm_sizes @ pg_sizes"
    by (simp add: sizes_draw_def draw_defs datasets_def float_eval heights_def all_bars_def
        numeral_eq_Suc)
  then obtain a where
    a: "sizes_draw datasets (take 1 csv_sizes) lsm_sizes pg_sizes new_axes = Inr a"
    and h: "heights a = replicate 2 (hd csv_sizes) @ lsm_sizes @ pg_sizes"
    by blast
  have w: "writable_all ''docs/images/lab3_sizes.png''"
    by (simp add: writable_all_def)
  have "chart_sizes datasets (take 1 csv_sizes) lsm_sizes pg_sizes writable_all (start no_files) =
      Inr ((start no_files)\<lparr>files := (files (start no_files))
             (''docs/images/lab3_sizes.png'' \<mapsto> saved a ''docs/images/lab3_sizes.png''),
           stdout := stdout (start no_files) @
             [saved_msg ''1'' ''docs/images/lab3_sizes.png'']\<rparr>)"
    by (simp only: chart_blocks
        block_ok [of "sizes_draw datasets (take 1 csv_sizes) lsm_sizes pg_sizes" a
          writable_all, OF a w])
  with len h show ?thesis
    by (simp add: raised_def final_world_def saved_def)
qed

end
